theory Spec2Isabelle
  imports Main "HOL-Library.Word"
begin

unbundle bit_operations_syntax

section \<open>DualShellCommander: the network update pipeline (network_update.c)\<close>

text \<open>
  The translation unit holds three functions: \<open>network_update_thread\<close> (the version check
  and the update question), \<open>installUpdater\<close> (staging and promoting the updater companion)
  and \<open>update_extract_thread\<close> (extracting the downloaded package under a power lock).
  They are embedded as functions on an explicit \<open>world\<close>: the process-wide dialog step, the
  persistent storage, the promoted package and the sequence of collaborator calls made so far.
  Every collaborator call of the source appends one \<open>call\<close> to that sequence, in source order.
\<close>

subsection \<open>Data\<close>

type_synonym byte = "8 word"
type_synonym path = string

text \<open>The dialog steps the pipeline reads or writes; every other step of the application
  is \<open>DIALOG_STEP_OTHER\<close>.\<close>

datatype dialog_step =
    DIALOG_STEP_NONE
  | DIALOG_STEP_UPDATE_QUESTION
  | DIALOG_STEP_DOWNLOADED
  | DIALOG_STEP_EXTRACTED
  | DIALOG_STEP_CANCELED
  | DIALOG_STEP_OTHER nat

text \<open>The two delay constants of \<open>update_extract_thread\<close> are macros of a header; the
  poll loop of \<open>network_update_thread\<close> sleeps a literal number of microseconds.\<close>

datatype delay = DIALOG_WAIT | COUNTUP_WAIT | Microseconds nat

text \<open>One constructor per collaborator called by network_update.c, with the arguments
  that the source passes.\<close>

datatype call =
    E_getDownloadFileSize string
  | E_downloadFile string path
  | E_ReadFile path nat
  | E_sceIoRemove path
  | E_initMessageDialog string
  | E_setDialogStep dialog_step
  | E_sceKernelDelayThread delay
  | E_downloadFileProcess string path dialog_step
  | E_sceKernelExitDeleteThread int
  | E_removePath path
  | E_sceIoMkdir path
  | E_WriteFile path
  | E_makeHeadBin
  | E_promoteApp path
  | E_powerLock
  | E_powerUnlock
  | E_sceMsgDialogProgressBarSetValue nat
  | E_archiveClearPassword
  | E_archiveOpen path
  | E_closeWaitDialog
  | E_errorDialog int
  | E_getArchivePathInfo path
  | E_createStartUpdateThread "64 word"
  | E_extractArchivePath path path "64 word"
  | E_sceMsgDialogClose
  | E_sceKernelWaitThreadEnd int

datatype node = Dir | File "byte list"

type_synonym filesystem = "path \<Rightarrow> node option"

record world =
  dialog_step :: dialog_step
  fs :: filesystem
  promoted :: "filesystem option"
  trace :: "call list"

text \<open>What the build supplies to network_update.c from outside the file: two macros of
  main.h and file.h, the two embedded updater blobs (linker symbols), and the content of
  the header file that \<open>makeHeadBin\<close> derives from a package descriptor.\<close>

record config =
  DUALSHELLCOMMANDER_VERSION :: "32 word"
  DIRECTORY_SIZE :: "32 word"
  updater_eboot_bin :: "byte list"
  updater_param_bin :: "byte list"
  head_bin_of :: "byte list option \<Rightarrow> int \<times> byte list option"

subsection \<open>Paths\<close>

definition BASE_ADDRESS :: string where
  "BASE_ADDRESS = ''https://raw.githubusercontent.com/TheOfficialFloW/DualShellCommander/master/releases/download''"

definition VERSION_URL :: string where
  "VERSION_URL = ''/0.2/version.bin''"

definition DUALSHELLCOMMANDER_UPDATE_FILE :: path where
  "DUALSHELLCOMMANDER_UPDATE_FILE = ''ux0:DualShellCommander/internal/DualShellCommander.vpk''"

definition DUALSHELLCOMMANDER_VERSION_FILE :: path where
  "DUALSHELLCOMMANDER_VERSION_FILE = ''ux0:DualShellCommander/internal/version.bin''"

text \<open>\<open>PACKAGE_DIR\<close> is a macro of package_installer.h. \<open>installUpdater\<close> writes its files
  under the literal \<open>ux0:data/pkg\<close> between clearing \<open>PACKAGE_DIR\<close> and promoting it, so
  that literal is the value taken here.\<close>

definition PACKAGE_DIR :: path where
  "PACKAGE_DIR = ''ux0:data/pkg''"

definition HEAD_BIN :: path where
  "HEAD_BIN = PACKAGE_DIR @ ''/sce_sys/package/head.bin''"

text \<open>\<open>within_dir d p\<close>: the path \<open>p\<close> is the directory \<open>d\<close> itself or lies below it.\<close>

definition within_dir :: "path \<Rightarrow> path \<Rightarrow> bool" where
  "within_dir d p = (p = d \<or> take (Suc (length d)) p = d @ ''/'')"

definition subtree :: "path \<Rightarrow> filesystem \<Rightarrow> filesystem" where
  "subtree d f = (\<lambda>p. if within_dir d p then f p else None)"

definition without :: "path \<Rightarrow> filesystem \<Rightarrow> filesystem" where
  "without d f = (\<lambda>p. if within_dir d p then None else f p)"

subsection \<open>The version string (network_update_thread, lines 57 to 63)\<close>

definition hexdigit :: "nat \<Rightarrow> char" where
  "hexdigit n = ''0123456789ABCDEF'' ! (n mod 16)"

text \<open>\<open>%X\<close>: upper-case hexadecimal without padding.\<close>

fun sprintf_X :: "nat \<Rightarrow> string" where
  "sprintf_X n = (if n < 16 then [hexdigit n] else sprintf_X (n div 16) @ [hexdigit n])"

declare sprintf_X.simps [simp del]

text \<open>\<open>%02X\<close>: the same, padded with zeros on the left to two characters.\<close>

definition sprintf_02X :: "nat \<Rightarrow> string" where
  "sprintf_02X n = (let s = sprintf_X n in replicate (2 - length s) (CHR ''0'') @ s)"

definition NUL :: char where
  "NUL = CHR 0x00"

text \<open>The C string held by a buffer: the characters before the first NUL.\<close>

definition c_string :: "char list \<Rightarrow> string" where
  "c_string buf = takeWhile (\<lambda>c. c \<noteq> NUL) buf"

text \<open>\<open>sprintf(version_string, "%X.%02X", major, minor)\<close> stores the formatted text and a
  terminating NUL; the formatted text has at least four characters, so index 3 is inside
  what \<open>sprintf\<close> wrote. The buffer of 8 bytes holds the at most 5 characters and the NUL.\<close>

definition version_string :: "32 word \<Rightarrow> string" where
  "version_string version =
     (let major = unat (drop_bit 0x18 version AND 0xFF);
          minor = unat (drop_bit 0x10 version AND 0xFF);
          buf = sprintf_X major @ ''.'' @ sprintf_02X minor @ [NUL];
          buf' = (if buf ! 3 = CHR ''0'' then buf[3 := NUL] else buf)
      in c_string buf')"

subsection \<open>Collaborators\<close>

text \<open>Every collaborator below lives outside network_update.c. Each definition records the
  call and gives the effect that the specification attributes to the collaborator.\<close>

definition emit :: "call \<Rightarrow> world \<Rightarrow> world" where
  "emit c w = w\<lparr>trace := trace w @ [c]\<rparr>"

text \<open>Modelled from the spec: the Dialog State Store (\<open>getDialogStep\<close>, \<open>setDialogStep\<close>),
  one process-wide value, last write wins.\<close>

definition getDialogStep :: "world \<Rightarrow> dialog_step" where
  "getDialogStep w = dialog_step w"

definition setDialogStep :: "dialog_step \<Rightarrow> world \<Rightarrow> world" where
  "setDialogStep s w = emit (E_setDialogStep s) (w\<lparr>dialog_step := s\<rparr>)"

text \<open>Modelled from the spec: \<open>removePath\<close> removes a directory recursively; its result is
  not used by network_update.c.\<close>

definition removePath :: "path \<Rightarrow> world \<Rightarrow> world" where
  "removePath d w = emit (E_removePath d) (w\<lparr>fs := without d (fs w)\<rparr>)"

text \<open>Modelled from the spec: \<open>sceIoMkdir\<close> creates a directory where nothing exists yet and
  leaves an existing entry alone; \<open>WriteFile\<close> stores a buffer as the file's content;
  \<open>sceIoRemove\<close> deletes a file. Their results are not used by network_update.c.\<close>

definition sceIoMkdir :: "path \<Rightarrow> world \<Rightarrow> world" where
  "sceIoMkdir p w =
     emit (E_sceIoMkdir p) (w\<lparr>fs := (if fs w p = None then (fs w)(p \<mapsto> Dir) else fs w)\<rparr>)"

definition WriteFile :: "path \<Rightarrow> byte list \<Rightarrow> world \<Rightarrow> world" where
  "WriteFile p buf w = emit (E_WriteFile p) (w\<lparr>fs := (fs w)(p \<mapsto> File buf)\<rparr>)"

definition sceIoRemove :: "path \<Rightarrow> world \<Rightarrow> world" where
  "sceIoRemove p w =
     emit (E_sceIoRemove p)
       (w\<lparr>fs := (case fs w p of Some (File bs) \<Rightarrow> (fs w)(p := None) | _ \<Rightarrow> fs w)\<rparr>)"

definition file_content :: "filesystem \<Rightarrow> path \<Rightarrow> byte list option" where
  "file_content f p = (case f p of Some (File bs) \<Rightarrow> Some bs | _ \<Rightarrow> None)"

text \<open>Modelled from the spec: \<open>makeHeadBin\<close> constructs the header file of the staged
  package from the staged descriptor and returns a result code (negative on failure). The
  code and the header's content are \<open>head_bin_of\<close> of the descriptor read.\<close>

definition makeHeadBin :: "config \<Rightarrow> world \<Rightarrow> int \<times> world" where
  "makeHeadBin cfg w =
     (let (res, out) = head_bin_of cfg (file_content (fs w) (PACKAGE_DIR @ ''/sce_sys/param.sfo''));
          w = emit E_makeHeadBin w
      in (res, case out of None \<Rightarrow> w | Some hb \<Rightarrow> w\<lparr>fs := (fs w)(HEAD_BIN \<mapsto> File hb)\<rparr>))"

text \<open>Modelled from the spec: promotion makes the staged directory the active installation,
  after which the staging copy is consumed.\<close>

definition promoteApp :: "path \<Rightarrow> world \<Rightarrow> world" where
  "promoteApp d w =
     emit (E_promoteApp d) (w\<lparr>fs := without d (fs w), promoted := Some (subtree d (fs w))\<rparr>)"

definition powerLock :: "world \<Rightarrow> world" where
  "powerLock w = emit E_powerLock w"

definition powerUnlock :: "world \<Rightarrow> world" where
  "powerUnlock w = emit E_powerUnlock w"

definition sceMsgDialogProgressBarSetValue :: "nat \<Rightarrow> world \<Rightarrow> world" where
  "sceMsgDialogProgressBarSetValue v w = emit (E_sceMsgDialogProgressBarSetValue v) w"

definition sceKernelDelayThread :: "delay \<Rightarrow> world \<Rightarrow> world" where
  "sceKernelDelayThread d w = emit (E_sceKernelDelayThread d) w"

definition archiveClearPassword :: "world \<Rightarrow> world" where
  "archiveClearPassword w = emit E_archiveClearPassword w"

definition closeWaitDialog :: "world \<Rightarrow> world" where
  "closeWaitDialog w = emit E_closeWaitDialog w"

definition sceMsgDialogClose :: "world \<Rightarrow> world" where
  "sceMsgDialogClose w = emit E_sceMsgDialogClose w"

definition initMessageDialog :: "string \<Rightarrow> world \<Rightarrow> world" where
  "initMessageDialog text w = emit (E_initMessageDialog text) w"

definition sceKernelWaitThreadEnd :: "int \<Rightarrow> world \<Rightarrow> world" where
  "sceKernelWaitThreadEnd thid w = emit (E_sceKernelWaitThreadEnd thid) w"

definition sceKernelExitDeleteThread :: "int \<Rightarrow> world \<Rightarrow> int \<times> world" where
  "sceKernelExitDeleteThread status w = (0, emit (E_sceKernelExitDeleteThread status) w)"

subsection \<open>installUpdater (lines 89 to 106)\<close>

definition installUpdater :: "config \<Rightarrow> world \<Rightarrow> world" where
  "installUpdater cfg w =
     (let w = removePath PACKAGE_DIR w;
          w = sceIoMkdir PACKAGE_DIR w;
          w = sceIoMkdir ''ux0:data/pkg/sce_sys'' w;
          w = WriteFile ''ux0:data/pkg/eboot.bin'' (updater_eboot_bin cfg) w;
          w = WriteFile ''ux0:data/pkg/sce_sys/param.sfo'' (updater_param_bin cfg) w;
          (res, w) = makeHeadBin cfg w
      in promoteApp PACKAGE_DIR w)"

subsection \<open>network_update_thread (lines 41 to 87)\<close>

text \<open>What the collaborators of one run of the version check answer: the result of
  \<open>getDownloadFileSize\<close> and the size it stored, the result of \<open>downloadFile\<close> and the
  content it stored, whether reading the descriptor fails, what the interface thread writes
  to the dialog step during each sleep of the poll loop (nothing more once the list ends),
  and the result of \<open>downloadFileProcess\<close> with the package it stored, if any.\<close>

record net_env =
  size_query :: "int \<times> 64 word"
  download :: "int \<times> byte list"
  read_fault :: bool
  ui_writes :: "dialog_step option list"
  package_download :: "int \<times> byte list option"

definition getDownloadFileSize :: "net_env \<Rightarrow> string \<Rightarrow> world \<Rightarrow> (int \<times> 64 word) \<times> world" where
  "getDownloadFileSize env url w = (size_query env, emit (E_getDownloadFileSize url) w)"

text \<open>Modelled from the spec: the Downloader Gateway streams the content to a local path and
  returns a byte count or a negative error.\<close>

definition downloadFile :: "net_env \<Rightarrow> string \<Rightarrow> path \<Rightarrow> world \<Rightarrow> int \<times> world" where
  "downloadFile env url dst w =
     (let (res, content) = download env;
          w = emit (E_downloadFile url dst) w
      in (res, if res > 0 then w\<lparr>fs := (fs w)(dst \<mapsto> File content)\<rparr> else w))"

text \<open>Modelled from the spec: \<open>ReadFile\<close> is the file read collaborator. It copies at most
  \<open>n\<close> bytes of the file into the caller's buffer. The bytes copied are the result here
  (none when the file cannot be opened or read); the number it returns is dropped at its
  only call, line 50.\<close>

definition ReadFile :: "net_env \<Rightarrow> path \<Rightarrow> nat \<Rightarrow> world \<Rightarrow> byte list \<times> world" where
  "ReadFile env p n w =
     ((if read_fault env then []
       else case file_content (fs w) p of None \<Rightarrow> [] | Some bs \<Rightarrow> take n bs),
      emit (E_ReadFile p n) w)"

text \<open>The \<open>uint32_t\<close> is read through its address: the bytes copied replace its bytes from
  the lowest address on, the others keep their value. The target is little-endian.\<close>

definition bytes_of_u32 :: "32 word \<Rightarrow> byte list" where
  "bytes_of_u32 v = [ucast v, ucast (drop_bit 8 v), ucast (drop_bit 16 v), ucast (drop_bit 24 v)]"

definition u32_of_bytes :: "byte list \<Rightarrow> 32 word" where
  "u32_of_bytes bs = foldr (\<lambda>b acc. ucast b OR push_bit 8 acc) bs 0"

definition store_bytes_u32 :: "32 word \<Rightarrow> byte list \<Rightarrow> 32 word" where
  "store_bytes_u32 v bs = u32_of_bytes (take 4 bs @ drop (length (take 4 bs)) (bytes_of_u32 v))"

text \<open>Modelled from the spec: \<open>downloadFileProcess\<close> downloads the package to the staging
  path and signals success by setting the dialog step it was given.\<close>

definition downloadFileProcess :: "net_env \<Rightarrow> string \<Rightarrow> path \<Rightarrow> dialog_step \<Rightarrow> world \<Rightarrow> int \<times> world" where
  "downloadFileProcess env url dst step w =
     (let (res, content) = package_download env;
          w = emit (E_downloadFileProcess url dst step) w
      in (res, case content of None \<Rightarrow> w
               | Some bs \<Rightarrow> w\<lparr>fs := (fs w)(dst \<mapsto> File bs), dialog_step := step\<rparr>))"

text \<open>A write to the dialog step by the interface thread while this thread sleeps.\<close>

definition ui_thread :: "dialog_step option \<Rightarrow> world \<Rightarrow> world" where
  "ui_thread u w = (case u of None \<Rightarrow> w | Some s \<Rightarrow> w\<lparr>dialog_step := s\<rparr>)"

text \<open>The poll loop of lines 70 to 72. \<open>Unanswered\<close>: the interface thread never moves the
  dialog step away from the question, and the loop does not end.\<close>

datatype poll = Answered world | Unanswered world

fun wait_for_response :: "dialog_step option list \<Rightarrow> world \<Rightarrow> poll" where
  "wait_for_response [] w =
     (if getDialogStep w = DIALOG_STEP_UPDATE_QUESTION then Unanswered w else Answered w)"
| "wait_for_response (u # us) w =
     (if getDialogStep w = DIALOG_STEP_UPDATE_QUESTION
      then wait_for_response us (ui_thread u (sceKernelDelayThread (Microseconds (10 * 1000)) w))
      else Answered w)"

text \<open>The outcome of a thread function: it returns a value, or it never returns.\<close>

datatype outcome = Returned int world | Blocked world

fun final_world :: "outcome \<Rightarrow> world" where
  "final_world (Returned r w) = w"
| "final_world (Blocked w) = w"

definition returned :: "int \<times> world \<Rightarrow> outcome" where
  "returned rw = Returned (fst rw) (snd rw)"

definition network_update_thread :: "config \<Rightarrow> net_env \<Rightarrow> world \<Rightarrow> outcome" where
  "network_update_thread cfg env w =
     (let ((r, sz), w) = getDownloadFileSize env (BASE_ADDRESS @ VERSION_URL) w
      in if r \<ge> 0 \<and> sz = 4 then
           (let (res, w) = downloadFile env (BASE_ADDRESS @ VERSION_URL) DUALSHELLCOMMANDER_VERSION_FILE w
            in if res \<le> 0 then returned (sceKernelExitDeleteThread 0 w)
               else
                 (let version = 0;
                      (bs, w) = ReadFile env DUALSHELLCOMMANDER_VERSION_FILE 4 w;
                      version = store_bytes_u32 version bs;
                      w = sceIoRemove DUALSHELLCOMMANDER_VERSION_FILE w
                  in if getDialogStep w = DIALOG_STEP_NONE then
                       (if version > DUALSHELLCOMMANDER_VERSION cfg then
                          (let w = initMessageDialog (version_string version) w;
                               w = setDialogStep DIALOG_STEP_UPDATE_QUESTION w
                           in case wait_for_response (ui_writes env) w of
                                Unanswered w \<Rightarrow> Blocked w
                              | Answered w \<Rightarrow>
                                  if getDialogStep w = DIALOG_STEP_NONE
                                  then returned (sceKernelExitDeleteThread 0 w)
                                  else returned (downloadFileProcess env (BASE_ADDRESS @ ''/DualShellCommander.vpk'')
                                                   DUALSHELLCOMMANDER_UPDATE_FILE DIALOG_STEP_DOWNLOADED w))
                        else returned (sceKernelExitDeleteThread 0 w))
                     else returned (sceKernelExitDeleteThread 0 w)))
         else returned (sceKernelExitDeleteThread 0 w))"

subsection \<open>update_extract_thread (lines 108 to 190)\<close>

text \<open>What the collaborators of one run of the extraction answer: the result of
  \<open>archiveOpen\<close>; the size, folder count and file count stored by \<open>getArchivePathInfo\<close>;
  the thread id returned by \<open>createStartUpdateThread\<close> (negative when no thread was
  started); the result of \<open>extractArchivePath\<close> with the entries it created below the
  destination; the dialog step that \<open>errorDialog\<close> leaves, given the result code it is
  called with and the dialog step it finds.\<close>

record extract_env =
  archive_open :: int
  path_info :: "64 word \<times> 32 word \<times> 32 word"
  update_thid :: int
  extraction :: "int \<times> (path \<times> node) list"
  error_dialog :: "int \<Rightarrow> dialog_step \<Rightarrow> dialog_step"

text \<open>Modelled from the spec: \<open>errorDialog\<close> is the generic error-dialog collaborator keyed
  by a numeric result code. Its code is outside network_update.c, and what it does to the
  dialog step is not known: the step after the call is the environment's \<open>error_dialog\<close> of
  the code and of the step before.\<close>

definition errorDialog :: "extract_env \<Rightarrow> int \<Rightarrow> world \<Rightarrow> world" where
  "errorDialog env res w =
     emit (E_errorDialog res) (w\<lparr>dialog_step := error_dialog env res (dialog_step w)\<rparr>)"

text \<open>Modelled from the spec: the Archive Gateway opens the archive at a path, reports the
  sizes and counts of an entry, and extracts entries below a destination;
  \<open>createStartUpdateThread\<close> starts the progress worker and returns its thread id.\<close>

definition archiveOpen :: "extract_env \<Rightarrow> path \<Rightarrow> world \<Rightarrow> int \<times> world" where
  "archiveOpen env p w = (archive_open env, emit (E_archiveOpen p) w)"

definition getArchivePathInfo :: "extract_env \<Rightarrow> path \<Rightarrow> world \<Rightarrow> (64 word \<times> 32 word \<times> 32 word) \<times> world" where
  "getArchivePathInfo env p w = (path_info env, emit (E_getArchivePathInfo p) w)"

definition createStartUpdateThread :: "extract_env \<Rightarrow> 64 word \<Rightarrow> world \<Rightarrow> int \<times> world" where
  "createStartUpdateThread env m w = (update_thid env, emit (E_createStartUpdateThread m) w)"

definition extractArchivePath :: "extract_env \<Rightarrow> path \<Rightarrow> path \<Rightarrow> 64 word \<Rightarrow> world \<Rightarrow> int \<times> world" where
  "extractArchivePath env src dst m w =
     (let (res, entries) = extraction env;
          w = emit (E_extractArchivePath src dst m) w
      in (res, w\<lparr>fs := fold (\<lambda>(p, n) f. f(dst @ p \<mapsto> n)) entries (fs w)\<rparr>))"

text \<open>\<open>size + folders * DIRECTORY_SIZE\<close> with \<open>uint64_t size\<close> and \<open>uint32_t folders\<close>:
  the product is formed in 32 bits (\<open>DIRECTORY_SIZE\<close> is an \<open>int\<close> constant), converted to
  64 bits and added.\<close>

definition progress_max :: "config \<Rightarrow> 64 word \<Rightarrow> 32 word \<Rightarrow> 64 word" where
  "progress_max cfg sz folders = sz + ucast (folders * DIRECTORY_SIZE cfg)"

text \<open>The label \<open>EXIT\<close> (lines 182 to 189).\<close>

definition update_extract_exit :: "int \<Rightarrow> world \<Rightarrow> int \<times> world" where
  "update_extract_exit thid w =
     (let w = (if thid \<ge> 0 then sceKernelWaitThreadEnd thid w else w);
          w = powerUnlock w
      in sceKernelExitDeleteThread 0 w)"

text \<open>Lines 111 to 123: everything before the archive is touched.\<close>

definition update_extract_staging :: "config \<Rightarrow> world \<Rightarrow> world" where
  "update_extract_staging cfg w =
     (let w = powerLock w;
          w = sceMsgDialogProgressBarSetValue 0 w;
          w = sceKernelDelayThread DIALOG_WAIT w;
          w = installUpdater cfg w;
          w = removePath PACKAGE_DIR w
      in sceIoMkdir PACKAGE_DIR w)"

text \<open>Lines 125 to 189, with \<open>thid\<close> as initialised at line 109.\<close>

definition update_extract_archive :: "config \<Rightarrow> extract_env \<Rightarrow> int \<Rightarrow> world \<Rightarrow> int \<times> world" where
  "update_extract_archive cfg env thid w =
     (let w = archiveClearPassword w;
          (res, w) = archiveOpen env DUALSHELLCOMMANDER_UPDATE_FILE w
      in if res < 0 then
           (let w = closeWaitDialog w;
                w = errorDialog env res w
            in update_extract_exit thid w)
         else
           (let src_path = DUALSHELLCOMMANDER_UPDATE_FILE @ ''/'';
                ((sz, folders, files), w) = getArchivePathInfo env src_path w;
                (thid, w) = createStartUpdateThread env (progress_max cfg sz folders) w;
                (res, w) = extractArchivePath env src_path (PACKAGE_DIR @ ''/'')
                             (progress_max cfg sz folders) w
            in if res \<le> 0 then
                 (let w = closeWaitDialog w;
                      w = setDialogStep DIALOG_STEP_CANCELED w;
                      w = errorDialog env res w
                  in update_extract_exit thid w)
               else
                 (let w = sceIoRemove DUALSHELLCOMMANDER_UPDATE_FILE w;
                      (res, w) = makeHeadBin cfg w
                  in if res < 0 then
                       (let w = closeWaitDialog w;
                            w = errorDialog env res w
                        in update_extract_exit thid w)
                     else
                       (let w = sceMsgDialogProgressBarSetValue 100 w;
                            w = sceKernelDelayThread COUNTUP_WAIT w;
                            w = sceMsgDialogClose w;
                            w = setDialogStep DIALOG_STEP_EXTRACTED w
                        in update_extract_exit thid w))))"

definition update_extract_thread :: "config \<Rightarrow> extract_env \<Rightarrow> world \<Rightarrow> int \<times> world" where
  "update_extract_thread cfg env w =
     update_extract_archive cfg env (- 1) (update_extract_staging cfg w)"

subsection \<open>Vocabulary of the statements\<close>

text \<open>The calls made between two worlds of one run.\<close>

definition run_calls :: "world \<Rightarrow> world \<Rightarrow> call list" where
  "run_calls w w' = drop (length (trace w)) (trace w')"

text \<open>The dialog steps written by \<open>setDialogStep\<close> calls, in order.\<close>

definition dialog_writes :: "call list \<Rightarrow> dialog_step list" where
  "dialog_writes cs = concat (map (\<lambda>c. case c of E_setDialogStep s \<Rightarrow> [s] | _ \<Rightarrow> []) cs)"

text \<open>The calls that put a question or a result in front of the user.\<close>

definition prompts :: "call list \<Rightarrow> call list" where
  "prompts cs =
     filter (\<lambda>c. case c of E_initMessageDialog t \<Rightarrow> True | E_setDialogStep s \<Rightarrow> True
                  | E_downloadFileProcess u p s \<Rightarrow> True | _ \<Rightarrow> False) cs"

text \<open>The calls of \<open>installUpdater\<close>, of lines 111 to 123 and of the label \<open>EXIT\<close>.\<close>

definition installUpdater_calls :: "call list" where
  "installUpdater_calls =
     [E_removePath PACKAGE_DIR, E_sceIoMkdir PACKAGE_DIR, E_sceIoMkdir ''ux0:data/pkg/sce_sys'',
      E_WriteFile ''ux0:data/pkg/eboot.bin'', E_WriteFile ''ux0:data/pkg/sce_sys/param.sfo'',
      E_makeHeadBin, E_promoteApp PACKAGE_DIR]"

definition staging_calls :: "call list" where
  "staging_calls =
     [E_powerLock, E_sceMsgDialogProgressBarSetValue 0, E_sceKernelDelayThread DIALOG_WAIT]
     @ installUpdater_calls @ [E_removePath PACKAGE_DIR, E_sceIoMkdir PACKAGE_DIR]"

definition exit_calls :: "int \<Rightarrow> call list" where
  "exit_calls thid =
     (if thid \<ge> 0 then [E_sceKernelWaitThreadEnd thid] else [])
     @ [E_powerUnlock, E_sceKernelExitDeleteThread 0]"

text \<open>The calls from clearing the archive password to the return of \<open>extractArchivePath\<close>.\<close>

definition extraction_calls :: "config \<Rightarrow> extract_env \<Rightarrow> call list" where
  "extraction_calls cfg env =
     (let m = progress_max cfg (fst (path_info env)) (fst (snd (path_info env)))
      in [E_archiveClearPassword, E_archiveOpen DUALSHELLCOMMANDER_UPDATE_FILE,
          E_getArchivePathInfo (DUALSHELLCOMMANDER_UPDATE_FILE @ ''/''),
          E_createStartUpdateThread m,
          E_extractArchivePath (DUALSHELLCOMMANDER_UPDATE_FILE @ ''/'') (PACKAGE_DIR @ ''/'') m])"

text \<open>The entries that lines 92 to 99 of \<open>installUpdater\<close> create, the header file that
  \<open>makeHeadBin\<close> adds for the updater's descriptor, and the package that results.\<close>

definition updater_staged :: "config \<Rightarrow> filesystem \<Rightarrow> filesystem" where
  "updater_staged cfg f =
     f(PACKAGE_DIR \<mapsto> Dir, ''ux0:data/pkg/sce_sys'' \<mapsto> Dir,
       ''ux0:data/pkg/eboot.bin'' \<mapsto> File (updater_eboot_bin cfg),
       ''ux0:data/pkg/sce_sys/param.sfo'' \<mapsto> File (updater_param_bin cfg))"

definition with_head_bin :: "config \<Rightarrow> filesystem \<Rightarrow> filesystem" where
  "with_head_bin cfg f =
     (case snd (head_bin_of cfg (Some (updater_param_bin cfg))) of
        None \<Rightarrow> f
      | Some hb \<Rightarrow> f(HEAD_BIN \<mapsto> File hb))"

definition updater_package :: "config \<Rightarrow> filesystem" where
  "updater_package cfg = with_head_bin cfg (updater_staged cfg Map.empty)"

definition staging_writes :: "config \<Rightarrow> world \<Rightarrow> world" where
  "staging_writes cfg w =
     WriteFile ''ux0:data/pkg/sce_sys/param.sfo'' (updater_param_bin cfg)
       (WriteFile ''ux0:data/pkg/eboot.bin'' (updater_eboot_bin cfg)
         (sceIoMkdir ''ux0:data/pkg/sce_sys'' (sceIoMkdir PACKAGE_DIR (removePath PACKAGE_DIR w))))"

text \<open>The package descriptor that the extraction leaves in the cleared staging directory,
  and the result of \<open>makeHeadBin\<close> on it (line 166).\<close>

definition extracted_entries :: "extract_env \<Rightarrow> filesystem \<Rightarrow> filesystem" where
  "extracted_entries env f =
     fold (\<lambda>(p, n) f. f((PACKAGE_DIR @ ''/'') @ p \<mapsto> n)) (snd (extraction env)) f"

definition extracted_descriptor :: "extract_env \<Rightarrow> byte list option" where
  "extracted_descriptor env =
     file_content (extracted_entries env Map.empty) (PACKAGE_DIR @ ''/sce_sys/param.sfo'')"

definition manifest_result :: "config \<Rightarrow> extract_env \<Rightarrow> int" where
  "manifest_result cfg env = fst (head_bin_of cfg (extracted_descriptor env))"

text \<open>The value of \<open>version\<close> after line 50 when the descriptor was downloaded: the
  descriptor's first four bytes stored over the initial 0, or 0 when the read fails.\<close>

definition parsed_version :: "net_env \<Rightarrow> 32 word" where
  "parsed_version env =
     store_bytes_u32 0 (if read_fault env then [] else take 4 (snd (download env)))"

text \<open>The world a poll ended in, and the calls of lines 43 to 51 of the version check.\<close>

fun poll_world :: "poll \<Rightarrow> world" where
  "poll_world (Answered w) = w"
| "poll_world (Unanswered w) = w"

definition check_calls :: "call list" where
  "check_calls =
     [E_getDownloadFileSize (BASE_ADDRESS @ VERSION_URL),
      E_downloadFile (BASE_ADDRESS @ VERSION_URL) DUALSHELLCOMMANDER_VERSION_FILE,
      E_ReadFile DUALSHELLCOMMANDER_VERSION_FILE 4,
      E_sceIoRemove DUALSHELLCOMMANDER_VERSION_FILE]"

subsection \<open>Concrete collaborators\<close>

text \<open>A build at version 1.00 with a directory weight of 100, whose header file is the
  descriptor itself and whose \<open>makeHeadBin\<close> fails with \<open>-1\<close> when there is no descriptor;
  an idle device with empty storage; an archive reporting size 1000, 2 folders and 5 files
  that extracts a descriptor, with an error dialog that moves the dialog step to a step of
  its own on a negative code and leaves it otherwise; a server offering version 1.20 to a
  user who declines at the second poll.\<close>

definition fake_config :: config where
  "fake_config =
     \<lparr>DUALSHELLCOMMANDER_VERSION = 0x01000000, DIRECTORY_SIZE = 100,
      updater_eboot_bin = [0x7F, 0x45], updater_param_bin = [0x00, 0x50],
      head_bin_of = (\<lambda>d. case d of None \<Rightarrow> (- 1, None) | Some bs \<Rightarrow> (0, Some bs))\<rparr>"

definition idle_world :: world where
  "idle_world = \<lparr>dialog_step = DIALOG_STEP_NONE, fs = Map.empty, promoted = None, trace = []\<rparr>"

definition fake_archive :: extract_env where
  "fake_archive =
     \<lparr>archive_open = 0, path_info = (1000, 2, 5), update_thid = 3,
      extraction = (1, [(''sce_sys/param.sfo'', File [0x00, 0x50])]),
      error_dialog = (\<lambda>res s. if res < 0 then DIALOG_STEP_OTHER 1 else s)\<rparr>"

definition fake_server :: net_env where
  "fake_server =
     \<lparr>size_query = (0, 4), download = (4, [0x00, 0x00, 0x20, 0x01]), read_fault = False,
      ui_writes = [None, Some DIALOG_STEP_NONE], package_download = (0, Some [0x50, 0x4B])\<rparr>"

section \<open>Properties\<close>

subsection \<open>The collaborators' effect on each part of the world\<close>

lemma emit_simps [simp]:
  "trace (emit c w) = trace w @ [c]" "fs (emit c w) = fs w"
  "dialog_step (emit c w) = dialog_step w" "promoted (emit c w) = promoted w"
  by (simp_all add: emit_def)

lemma within_dir_self [simp]: "within_dir d d"
  by (simp add: within_dir_def)

lemma without_apply: "without d f p = (if within_dir d p then None else f p)"
  by (simp add: without_def)

lemma without_upd [simp]: "within_dir d p \<Longrightarrow> without d (f(p := x)) = without d f"
  by (auto simp: without_def fun_eq_iff)

lemma without_without [simp]: "without d (without d f) = without d f"
  by (simp add: without_def fun_eq_iff)

lemma subtree_upd [simp]: "within_dir d p \<Longrightarrow> subtree d (f(p := x)) = (subtree d f)(p := x)"
  by (auto simp: subtree_def fun_eq_iff)

lemma subtree_without [simp]: "subtree d (without d f) = Map.empty"
  by (simp add: subtree_def without_def fun_eq_iff)

lemma pkg_paths [simp]:
  "within_dir PACKAGE_DIR ''ux0:data/pkg/sce_sys''"
  "within_dir PACKAGE_DIR ''ux0:data/pkg/eboot.bin''"
  "within_dir PACKAGE_DIR ''ux0:data/pkg/sce_sys/param.sfo''"
  "within_dir PACKAGE_DIR HEAD_BIN"
  by (simp_all add: within_dir_def PACKAGE_DIR_def HEAD_BIN_def)

lemma pkg_distinct [simp]:
  "''ux0:data/pkg/sce_sys'' \<noteq> PACKAGE_DIR"
  "PACKAGE_DIR @ ''/sce_sys/param.sfo'' = ''ux0:data/pkg/sce_sys/param.sfo''"
  by (simp_all add: PACKAGE_DIR_def)

lemma prim_fs [simp]:
  "fs (removePath d w) = without d (fs w)"
  "fs (sceIoMkdir p w) = (if fs w p = None then (fs w)(p \<mapsto> Dir) else fs w)"
  "fs (WriteFile p buf w) = (fs w)(p \<mapsto> File buf)"
  "fs (promoteApp d w) = without d (fs w)"
  by (simp_all add: removePath_def sceIoMkdir_def WriteFile_def promoteApp_def)

lemma prim_promoted [simp]:
  "promoted (removePath d w) = promoted w"
  "promoted (sceIoMkdir p w) = promoted w"
  "promoted (WriteFile p buf w) = promoted w"
  "promoted (promoteApp d w) = Some (subtree d (fs w))"
  by (simp_all add: removePath_def sceIoMkdir_def WriteFile_def promoteApp_def)

lemma prim_trace [simp]:
  "trace (removePath d w) = trace w @ [E_removePath d]"
  "trace (sceIoMkdir p w) = trace w @ [E_sceIoMkdir p]"
  "trace (WriteFile p buf w) = trace w @ [E_WriteFile p]"
  "trace (promoteApp d w) = trace w @ [E_promoteApp d]"
  by (simp_all add: removePath_def sceIoMkdir_def WriteFile_def promoteApp_def)

lemma prim_dialog_step [simp]:
  "dialog_step (removePath d w) = dialog_step w"
  "dialog_step (sceIoMkdir p w) = dialog_step w"
  "dialog_step (WriteFile p buf w) = dialog_step w"
  "dialog_step (promoteApp d w) = dialog_step w"
  by (simp_all add: removePath_def sceIoMkdir_def WriteFile_def promoteApp_def)

lemma makeHeadBin_fields [simp]:
  "trace (snd (makeHeadBin cfg w)) = trace w @ [E_makeHeadBin]"
  "dialog_step (snd (makeHeadBin cfg w)) = dialog_step w"
  "promoted (snd (makeHeadBin cfg w)) = promoted w"
  by (simp_all add: makeHeadBin_def Let_def split: prod.split option.split)

lemma makeHeadBin_fs:
  "fs (snd (makeHeadBin cfg w)) =
     (case snd (head_bin_of cfg (file_content (fs w) (PACKAGE_DIR @ ''/sce_sys/param.sfo''))) of
        None \<Rightarrow> fs w | Some hb \<Rightarrow> (fs w)(HEAD_BIN \<mapsto> File hb))"
  by (simp add: makeHeadBin_def Let_def split: prod.split option.split)

lemma makeHeadBin_res:
  "fst (makeHeadBin cfg w) =
     fst (head_bin_of cfg (file_content (fs w) (PACKAGE_DIR @ ''/sce_sys/param.sfo'')))"
  by (simp add: makeHeadBin_def Let_def split: prod.split option.split)

lemma installUpdater_unfold:
  "installUpdater cfg w = promoteApp PACKAGE_DIR (snd (makeHeadBin cfg (staging_writes cfg w)))"
  by (simp add: installUpdater_def staging_writes_def Let_def split: prod.split)

lemma staging_writes_fs:
  "fs (staging_writes cfg w) = updater_staged cfg (without PACKAGE_DIR (fs w))"
  by (simp add: staging_writes_def updater_staged_def without_apply)

lemma staged_descriptor:
  "file_content (updater_staged cfg f) ''ux0:data/pkg/sce_sys/param.sfo'' = Some (updater_param_bin cfg)"
  by (simp add: file_content_def updater_staged_def)

lemma installUpdater_stage_fs:
  "fs (snd (makeHeadBin cfg (staging_writes cfg w))) =
     with_head_bin cfg (updater_staged cfg (without PACKAGE_DIR (fs w)))"
  by (simp add: makeHeadBin_fs staging_writes_fs staged_descriptor with_head_bin_def split: option.split)

lemma without_staged: "without PACKAGE_DIR (with_head_bin cfg (updater_staged cfg f)) = without PACKAGE_DIR f"
  by (simp add: with_head_bin_def updater_staged_def split: option.split)

lemma subtree_staged:
  "subtree PACKAGE_DIR (with_head_bin cfg (updater_staged cfg (without PACKAGE_DIR f))) = updater_package cfg"
  by (simp add: with_head_bin_def updater_staged_def updater_package_def split: option.split)

lemma installUpdater_fs: "fs (installUpdater cfg w) = without PACKAGE_DIR (fs w)"
  by (simp add: installUpdater_unfold installUpdater_stage_fs without_staged)

lemma installUpdater_promoted: "promoted (installUpdater cfg w) = Some (updater_package cfg)"
  by (simp add: installUpdater_unfold installUpdater_stage_fs subtree_staged)

lemma installUpdater_trace:
  "trace (installUpdater cfg w) = trace w @
     [E_removePath PACKAGE_DIR, E_sceIoMkdir PACKAGE_DIR, E_sceIoMkdir ''ux0:data/pkg/sce_sys'',
      E_WriteFile ''ux0:data/pkg/eboot.bin'', E_WriteFile ''ux0:data/pkg/sce_sys/param.sfo'',
      E_makeHeadBin, E_promoteApp PACKAGE_DIR]"
  by (simp add: installUpdater_unfold staging_writes_def)

lemma installUpdater_dialog_step: "dialog_step (installUpdater cfg w) = dialog_step w"
  by (simp add: installUpdater_unfold staging_writes_def)

subsection \<open>installUpdater is a clear-then-write\<close>

text \<open>
  Claim C8. Calling \<open>installUpdater\<close> twice in a row, from any starting world (any content of
  the storage, also what a failed earlier attempt left behind), leaves the same storage and
  the same promoted package as calling it once, and so the same entries under the package
  directory. The reason is that each call first clears and recreates the package directory,
  then writes the two embedded blobs, builds the header file and promotes: the package that
  is promoted, \<open>updater_package\<close>, does not depend on the starting world.
\<close>

theorem installUpdater_idempotent:
  "fs (installUpdater cfg (installUpdater cfg w)) = fs (installUpdater cfg w)
   \<and> promoted (installUpdater cfg (installUpdater cfg w)) = promoted (installUpdater cfg w)
   \<and> subtree PACKAGE_DIR (fs (installUpdater cfg (installUpdater cfg w)))
       = subtree PACKAGE_DIR (fs (installUpdater cfg w))
   \<and> promoted (installUpdater cfg w) = Some (updater_package cfg)
   \<and> run_calls w (installUpdater cfg w) = installUpdater_calls
   \<and> run_calls (installUpdater cfg w) (installUpdater cfg (installUpdater cfg w))
       = installUpdater_calls"
  by (simp add: installUpdater_fs installUpdater_promoted installUpdater_trace run_calls_def
      installUpdater_calls_def)

subsection \<open>The version string\<close>

lemma below_16_cases:
  assumes "(k::nat) < 16"
  obtains "k = 0" | "k = 1" | "k = 2" | "k = 3" | "k = 4" | "k = 5" | "k = 6" | "k = 7"
    | "k = 8" | "k = 9" | "k = 10" | "k = 11" | "k = 12" | "k = 13" | "k = 14" | "k = 15"
  using assms by atomize_elim arith

lemma hexdigit_not_NUL: "hexdigit n \<noteq> NUL"
proof -
  have "n mod 16 < 16" by simp
  then show ?thesis
    by (cases rule: below_16_cases) (simp_all add: hexdigit_def NUL_def)
qed

lemma hexdigit_zero: "hexdigit n = CHR ''0'' \<longleftrightarrow> n mod 16 = 0"
proof -
  have "n mod 16 < 16" by simp
  then show ?thesis
    by (cases rule: below_16_cases) (simp_all add: hexdigit_def)
qed

lemma sprintf_X_one: "n < 16 \<Longrightarrow> sprintf_X n = [hexdigit n]"
  by (simp add: sprintf_X.simps [of n])

lemma sprintf_X_two: "16 \<le> n \<Longrightarrow> n < 256 \<Longrightarrow> sprintf_X n = [hexdigit (n div 16), hexdigit n]"
  by (simp add: sprintf_X.simps [of n] sprintf_X_one)

lemma sprintf_02X_byte: "n < 256 \<Longrightarrow> sprintf_02X n = [hexdigit (n div 16), hexdigit n]"
  by (cases "n < 16") (simp_all add: sprintf_02X_def sprintf_X_one sprintf_X_two hexdigit_def)

lemma byte_field_bound: "unat ((x :: 32 word) AND 0xFF) < 256"
proof -
  have "unat (x AND 0xFF) \<le> unat (0xFF :: 32 word)"
    by (rule word_and_le1 [THEN word_le_nat_alt [THEN iffD1]])
  then show ?thesis by simp
qed

lemma high_digit_zero:
  assumes "(m::nat) < 256"
  shows "(m div 16) mod 16 = 0 \<longleftrightarrow> m < 16"
proof -
  have "m div 16 < 16"
    using assms by (simp add: less_mult_imp_div_less)
  then have "(m div 16) mod 16 = m div 16"
    by simp
  then show ?thesis
    by (simp add: div_eq_0_iff)
qed

lemma high_digit_pos: "0 < (m::nat) div 16 \<longleftrightarrow> \<not> m < 16"
  by (simp add: div_greater_zero_iff not_less)

lemma dot_not_NUL: "CHR ''.'' \<noteq> NUL"
  by (simp add: NUL_def)

text \<open>What the version string is while the major part prints as one digit, and what it is
  from major \<open>0x10\<close> on.\<close>

lemma version_string_one_digit_major:
  assumes "unat (drop_bit 0x18 v AND 0xFF) < 16"
  shows "version_string v =
           (let major = unat (drop_bit 0x18 v AND 0xFF); minor = unat (drop_bit 0x10 v AND 0xFF)
            in [hexdigit major, CHR ''.'', hexdigit (minor div 16)]
               @ (if minor mod 16 = 0 then [] else [hexdigit minor]))"
  using assms byte_field_bound [of "drop_bit 0x10 v"]
  by (simp add: version_string_def Let_def sprintf_X_one sprintf_02X_byte c_string_def
      hexdigit_not_NUL hexdigit_zero dot_not_NUL)

lemma version_string_two_digit_major:
  assumes "16 \<le> unat (drop_bit 0x18 v AND 0xFF)"
  shows "version_string v =
           (let major = unat (drop_bit 0x18 v AND 0xFF); minor = unat (drop_bit 0x10 v AND 0xFF)
            in [hexdigit (major div 16), hexdigit major, CHR ''.'']
               @ (if minor < 16 then [] else [hexdigit (minor div 16), hexdigit minor]))"
proof -
  have m: "unat (drop_bit 0x10 v AND 0xFF) < 256" and M: "unat (drop_bit 0x18 v AND 0xFF) < 256"
    by (rule byte_field_bound)+
  have z: "(unat (drop_bit 0x10 v AND 0xFF) div 16) mod 16 = 0 \<longleftrightarrow> unat (drop_bit 0x10 v AND 0xFF) < 16"
    using m by (rule high_digit_zero)
  have nz: "0 < unat (drop_bit 0x10 v AND 0xFF) div 16 \<longleftrightarrow> \<not> unat (drop_bit 0x10 v AND 0xFF) < 16"
    by (rule high_digit_pos)
  show ?thesis
    using assms m M
    by (simp add: version_string_def Let_def sprintf_X_two sprintf_02X_byte c_string_def
        hexdigit_not_NUL hexdigit_zero dot_not_NUL z nz)
qed

text \<open>
  Claim C5. The version string is \<open>MAJOR.MINOR\<close> in hexadecimal digits with a trailing zero
  of the minor part dropped: \<open>0x01200000\<close> gives \<open>1.2\<close> and \<open>0x01050000\<close> gives \<open>1.05\<close>.
  The zero is looked for at index 3 of the buffer, which is the last digit only while the
  major part prints as one digit. For \<open>0x10050000\<close> (major \<open>0x10\<close>, minor \<open>0x05\<close>) index 3
  holds the first digit of the minor part, and the string is cut to \<open>10.\<close>; for
  \<open>0x10500000\<close> the trailing zero stays. The two lemmas above give the string for every
  version: right while the major part is below \<open>0x10\<close>, and from there on \<open>MAJOR.\<close> alone
  when the minor part is below \<open>0x10\<close> and \<open>MAJOR.MINOR\<close> with both digits otherwise.
\<close>

theorem version_string_examples:
  "version_string 0x01200000 = ''1.2''
   \<and> version_string 0x01050000 = ''1.05''
   \<and> version_string 0x10050000 = ''10.''
   \<and> version_string 0x10500000 = ''10.50''"
  by code_simp

lemma simple_calls [simp]:
  "powerLock w = emit E_powerLock w"
  "powerUnlock w = emit E_powerUnlock w"
  "sceMsgDialogProgressBarSetValue v w = emit (E_sceMsgDialogProgressBarSetValue v) w"
  "sceKernelDelayThread d w = emit (E_sceKernelDelayThread d) w"
  "archiveClearPassword w = emit E_archiveClearPassword w"
  "closeWaitDialog w = emit E_closeWaitDialog w"
  "sceMsgDialogClose w = emit E_sceMsgDialogClose w"
  "initMessageDialog t w = emit (E_initMessageDialog t) w"
  "sceKernelWaitThreadEnd thid w = emit (E_sceKernelWaitThreadEnd thid) w"
  "sceKernelExitDeleteThread status w = (0, emit (E_sceKernelExitDeleteThread status) w)"
  by (simp_all add: powerLock_def powerUnlock_def sceMsgDialogProgressBarSetValue_def
      sceKernelDelayThread_def archiveClearPassword_def closeWaitDialog_def
      sceMsgDialogClose_def initMessageDialog_def sceKernelWaitThreadEnd_def
      sceKernelExitDeleteThread_def)

lemma errorDialog_fields [simp]:
  "trace (errorDialog env res w) = trace w @ [E_errorDialog res]"
  "dialog_step (errorDialog env res w) = error_dialog env res (dialog_step w)"
  "fs (errorDialog env res w) = fs w"
  "promoted (errorDialog env res w) = promoted w"
  by (simp_all add: errorDialog_def)

lemma setDialogStep_fields [simp]:
  "trace (setDialogStep s w) = trace w @ [E_setDialogStep s]"
  "dialog_step (setDialogStep s w) = s"
  "fs (setDialogStep s w) = fs w"
  "promoted (setDialogStep s w) = promoted w"
  by (simp_all add: setDialogStep_def)

lemma sceIoRemove_fields [simp]:
  "trace (sceIoRemove p w) = trace w @ [E_sceIoRemove p]"
  "dialog_step (sceIoRemove p w) = dialog_step w"
  "promoted (sceIoRemove p w) = promoted w"
  by (simp_all add: sceIoRemove_def)

lemma sceIoRemove_fs_other: "q \<noteq> p \<Longrightarrow> fs (sceIoRemove p w) q = fs w q"
  by (simp add: sceIoRemove_def split: option.split node.split)

lemma sceIoRemove_file: "fs w p = Some (File bs) \<Longrightarrow> fs (sceIoRemove p w) p = None"
  by (simp add: sceIoRemove_def)

subsection \<open>update_extract_thread: lines 111 to 123\<close>

lemma staging_trace: "trace (update_extract_staging cfg w) = trace w @ staging_calls"
  by (simp add: update_extract_staging_def staging_calls_def installUpdater_calls_def
      installUpdater_trace)

lemma staging_dialog_step: "dialog_step (update_extract_staging cfg w) = dialog_step w"
  by (simp add: update_extract_staging_def installUpdater_dialog_step)

lemma staging_fs:
  "fs (update_extract_staging cfg w) = (without PACKAGE_DIR (fs w))(PACKAGE_DIR \<mapsto> Dir)"
  by (simp add: update_extract_staging_def installUpdater_fs without_apply)

lemma staging_promoted: "promoted (update_extract_staging cfg w) = Some (updater_package cfg)"
  by (simp add: update_extract_staging_def installUpdater_promoted)

subsection \<open>update_extract_thread: the label EXIT\<close>

lemma exit_fields:
  "fst (update_extract_exit thid w) = 0"
  "trace (snd (update_extract_exit thid w)) = trace w @ exit_calls thid"
  "dialog_step (snd (update_extract_exit thid w)) = dialog_step w"
  "fs (snd (update_extract_exit thid w)) = fs w"
  by (simp_all add: update_extract_exit_def exit_calls_def Let_def)

subsection \<open>update_extract_thread: the four ways through lines 125 to 180\<close>

lemma extractArchivePath_fields:
  "fst (extractArchivePath env src dst m w) = fst (extraction env)"
  "trace (snd (extractArchivePath env src dst m w)) = trace w @ [E_extractArchivePath src dst m]"
  "dialog_step (snd (extractArchivePath env src dst m w)) = dialog_step w"
  "fs (snd (extractArchivePath env src (PACKAGE_DIR @ ''/'') m w)) = extracted_entries env (fs w)"
  by (simp_all add: extractArchivePath_def extracted_entries_def Let_def case_prod_beta)

lemma fold_entries_lookup:
  fixes es :: "(path \<times> node) list" and f :: filesystem
  shows "fold (\<lambda>(p, n) f. f(d @ p \<mapsto> n)) es f q =
     (case fold (\<lambda>(p, n) f. f(d @ p \<mapsto> n)) es Map.empty q of None \<Rightarrow> f q | Some n \<Rightarrow> Some n)"
proof -
  define g :: "path \<times> node \<Rightarrow> filesystem \<Rightarrow> filesystem"
    where "g = (\<lambda>(p, n) f. f(d @ p \<mapsto> n))"
  have g: "g e f q = (if q = d @ fst e then Some (snd e) else f q)" for e f
    by (simp add: g_def case_prod_beta)
  have "fold g es f q = (case fold g es Map.empty q of None \<Rightarrow> f q | Some n \<Rightarrow> Some n)"
  proof (induction es arbitrary: f)
    case Nil
    show ?case by simp
  next
    case (Cons e es)
    have a: "fold g (e # es) f q =
        (case fold g es Map.empty q of None \<Rightarrow> g e f q | Some n \<Rightarrow> Some n)"
      using Cons.IH [of "g e f"] by simp
    have b: "fold g (e # es) Map.empty q =
        (case fold g es Map.empty q of None \<Rightarrow> g e Map.empty q | Some n \<Rightarrow> Some n)"
      using Cons.IH [of "g e Map.empty"] by simp
    show ?case
      unfolding a b by (cases "fold g es Map.empty q") (simp_all add: g)
  qed
  then show ?thesis by (simp add: g_def)
qed

lemma extracted_entries_lookup:
  "extracted_entries env f q =
     (case extracted_entries env Map.empty q of None \<Rightarrow> f q | Some n \<Rightarrow> Some n)"
  unfolding extracted_entries_def by (rule fold_entries_lookup)

lemma file_content_cong: "f p = g p \<Longrightarrow> file_content f p = file_content g p"
  by (simp add: file_content_def)

lemma update_file_not_descriptor:
  "PACKAGE_DIR @ ''/sce_sys/param.sfo'' \<noteq> DUALSHELLCOMMANDER_UPDATE_FILE"
  by (simp add: PACKAGE_DIR_def DUALSHELLCOMMANDER_UPDATE_FILE_def)

lemma descriptor_after_extraction:
  assumes "f (PACKAGE_DIR @ ''/sce_sys/param.sfo'') = None"
  shows "file_content (extracted_entries env f) (PACKAGE_DIR @ ''/sce_sys/param.sfo'')
         = extracted_descriptor env"
  unfolding extracted_descriptor_def
  using assms
  by (intro file_content_cong) (simp add: extracted_entries_lookup [of env f] split: option.split)

lemma manifest_result_eq:
  assumes "fs v ''ux0:data/pkg/sce_sys/param.sfo'' = None"
  shows "fst (makeHeadBin cfg (sceIoRemove DUALSHELLCOMMANDER_UPDATE_FILE
           (snd (extractArchivePath env src (PACKAGE_DIR @ ''/'') m v))))
         = manifest_result cfg env"
proof -
  let ?x = "snd (extractArchivePath env src (PACKAGE_DIR @ ''/'') m v)"
  have "file_content (fs (sceIoRemove DUALSHELLCOMMANDER_UPDATE_FILE ?x)) (PACKAGE_DIR @ ''/sce_sys/param.sfo'')
        = file_content (fs ?x) (PACKAGE_DIR @ ''/sce_sys/param.sfo'')"
    by (intro file_content_cong sceIoRemove_fs_other update_file_not_descriptor)
  also have "\<dots> = extracted_descriptor env"
    using assms by (simp only: extractArchivePath_fields) (rule descriptor_after_extraction, simp)
  finally show ?thesis
    by (simp only: makeHeadBin_res manifest_result_def)
qed

lemma archive_open_fails:
  assumes "archive_open env < 0"
  shows "fst (update_extract_archive cfg env t w) = 0"
    and "trace (snd (update_extract_archive cfg env t w)) =
           trace w @ [E_archiveClearPassword, E_archiveOpen DUALSHELLCOMMANDER_UPDATE_FILE,
                      E_closeWaitDialog, E_errorDialog (archive_open env)] @ exit_calls t"
    and "dialog_step (snd (update_extract_archive cfg env t w)) =
           error_dialog env (archive_open env) (dialog_step w)"
    and "fs (snd (update_extract_archive cfg env t w)) = fs w"
  using assms
  by (simp_all add: update_extract_archive_def Let_def archiveOpen_def exit_fields)

lemma archive_extraction_fails:
  assumes "0 \<le> archive_open env" and "fst (extraction env) \<le> 0"
  shows "fst (update_extract_archive cfg env t w) = 0"
    and "trace (snd (update_extract_archive cfg env t w)) =
           trace w @ extraction_calls cfg env
           @ [E_closeWaitDialog, E_setDialogStep DIALOG_STEP_CANCELED,
              E_errorDialog (fst (extraction env))]
           @ exit_calls (update_thid env)"
    and "dialog_step (snd (update_extract_archive cfg env t w)) =
           error_dialog env (fst (extraction env)) DIALOG_STEP_CANCELED"
    and "fs (snd (update_extract_archive cfg env t w)) = extracted_entries env (fs w)"
  using assms
  by (simp_all add: update_extract_archive_def Let_def case_prod_beta archiveOpen_def
      getArchivePathInfo_def createStartUpdateThread_def extractArchivePath_fields exit_fields
      extraction_calls_def)

lemma archive_manifest_fails:
  assumes "0 \<le> archive_open env" and "0 < fst (extraction env)"
    and "manifest_result cfg env < 0"
    and "fs w ''ux0:data/pkg/sce_sys/param.sfo'' = None"
  shows "fst (update_extract_archive cfg env t w) = 0"
    and "trace (snd (update_extract_archive cfg env t w)) =
           trace w @ extraction_calls cfg env
           @ [E_sceIoRemove DUALSHELLCOMMANDER_UPDATE_FILE, E_makeHeadBin,
              E_closeWaitDialog, E_errorDialog (manifest_result cfg env)]
           @ exit_calls (update_thid env)"
    and "dialog_step (snd (update_extract_archive cfg env t w)) =
           error_dialog env (manifest_result cfg env) (dialog_step w)"
  using assms
  by (simp_all add: update_extract_archive_def Let_def case_prod_beta archiveOpen_def
      getArchivePathInfo_def createStartUpdateThread_def extractArchivePath_fields exit_fields
      extraction_calls_def manifest_result_eq)

lemma archive_extracted:
  assumes "0 \<le> archive_open env" and "0 < fst (extraction env)"
    and "0 \<le> manifest_result cfg env"
    and "fs w ''ux0:data/pkg/sce_sys/param.sfo'' = None"
  shows "fst (update_extract_archive cfg env t w) = 0"
    and "trace (snd (update_extract_archive cfg env t w)) =
           trace w @ extraction_calls cfg env
           @ [E_sceIoRemove DUALSHELLCOMMANDER_UPDATE_FILE, E_makeHeadBin,
              E_sceMsgDialogProgressBarSetValue 100, E_sceKernelDelayThread COUNTUP_WAIT,
              E_sceMsgDialogClose, E_setDialogStep DIALOG_STEP_EXTRACTED]
           @ exit_calls (update_thid env)"
    and "dialog_step (snd (update_extract_archive cfg env t w)) = DIALOG_STEP_EXTRACTED"
  using assms
  by (simp_all add: update_extract_archive_def Let_def case_prod_beta archiveOpen_def
      getArchivePathInfo_def createStartUpdateThread_def extractArchivePath_fields exit_fields
      extraction_calls_def manifest_result_eq)

lemma staging_no_descriptor:
  "fs (update_extract_staging cfg w) ''ux0:data/pkg/sce_sys/param.sfo'' = None"
  by (simp add: staging_fs without_apply PACKAGE_DIR_def within_dir_def)

lemma thread_unfold:
  "update_extract_thread cfg env w = update_extract_archive cfg env (- 1) (update_extract_staging cfg w)"
  by (simp add: update_extract_thread_def)

lemma run_calls_append: "trace w' = trace w @ cs \<Longrightarrow> run_calls w w' = cs"
  by (simp add: run_calls_def)

lemma thread_open_fails:
  assumes "archive_open env < 0"
  shows "run_calls w (snd (update_extract_thread cfg env w)) =
           staging_calls @ [E_archiveClearPassword, E_archiveOpen DUALSHELLCOMMANDER_UPDATE_FILE,
                            E_closeWaitDialog, E_errorDialog (archive_open env)] @ exit_calls (- 1)"
    and "dialog_step (snd (update_extract_thread cfg env w)) =
           error_dialog env (archive_open env) (dialog_step w)"
  using assms
  by (simp_all add: thread_unfold archive_open_fails staging_trace staging_dialog_step run_calls_def)

lemma thread_extraction_fails:
  assumes "0 \<le> archive_open env" and "fst (extraction env) \<le> 0"
  shows "run_calls w (snd (update_extract_thread cfg env w)) =
           staging_calls @ extraction_calls cfg env
           @ [E_closeWaitDialog, E_setDialogStep DIALOG_STEP_CANCELED,
              E_errorDialog (fst (extraction env))]
           @ exit_calls (update_thid env)"
    and "dialog_step (snd (update_extract_thread cfg env w)) =
           error_dialog env (fst (extraction env)) DIALOG_STEP_CANCELED"
  using assms
  by (simp_all add: thread_unfold archive_extraction_fails staging_trace run_calls_def)

lemma thread_manifest_fails:
  assumes "0 \<le> archive_open env" and "0 < fst (extraction env)"
    and "manifest_result cfg env < 0"
  shows "run_calls w (snd (update_extract_thread cfg env w)) =
           staging_calls @ extraction_calls cfg env
           @ [E_sceIoRemove DUALSHELLCOMMANDER_UPDATE_FILE, E_makeHeadBin,
              E_closeWaitDialog, E_errorDialog (manifest_result cfg env)]
           @ exit_calls (update_thid env)"
    and "dialog_step (snd (update_extract_thread cfg env w)) =
           error_dialog env (manifest_result cfg env) (dialog_step w)"
  using assms
  by (simp_all add: thread_unfold archive_manifest_fails staging_no_descriptor staging_trace
      staging_dialog_step run_calls_def)

lemma thread_extracted:
  assumes "0 \<le> archive_open env" and "0 < fst (extraction env)"
    and "0 \<le> manifest_result cfg env"
  shows "run_calls w (snd (update_extract_thread cfg env w)) =
           staging_calls @ extraction_calls cfg env
           @ [E_sceIoRemove DUALSHELLCOMMANDER_UPDATE_FILE, E_makeHeadBin,
              E_sceMsgDialogProgressBarSetValue 100, E_sceKernelDelayThread COUNTUP_WAIT,
              E_sceMsgDialogClose, E_setDialogStep DIALOG_STEP_EXTRACTED]
           @ exit_calls (update_thid env)"
    and "dialog_step (snd (update_extract_thread cfg env w)) = DIALOG_STEP_EXTRACTED"
  using assms
  by (simp_all add: thread_unfold archive_extracted staging_no_descriptor staging_trace run_calls_def)

lemma thread_trace_extends:
  "trace (snd (update_extract_thread cfg env w)) =
     trace w @ run_calls w (snd (update_extract_thread cfg env w))"
proof -
  consider "archive_open env < 0"
    | "0 \<le> archive_open env" "fst (extraction env) \<le> 0"
    | "0 \<le> archive_open env" "0 < fst (extraction env)" "manifest_result cfg env < 0"
    | "0 \<le> archive_open env" "0 < fst (extraction env)" "0 \<le> manifest_result cfg env"
    by linarith
  then show ?thesis
    by cases
      (simp_all add: thread_unfold archive_open_fails archive_extraction_fails
        archive_manifest_fails archive_extracted staging_no_descriptor staging_trace run_calls_def)
qed

lemma dialog_writes_simps [simp]:
  "dialog_writes [] = []"
  "dialog_writes (c # cs) = (case c of E_setDialogStep s \<Rightarrow> [s] | _ \<Rightarrow> []) @ dialog_writes cs"
  "dialog_writes (xs @ ys) = dialog_writes xs @ dialog_writes ys"
  by (simp_all add: dialog_writes_def)

lemma dialog_writes_fixed [simp]:
  "dialog_writes staging_calls = []"
  "dialog_writes (extraction_calls cfg env) = []"
  "dialog_writes (exit_calls t) = []"
  by (simp_all add: staging_calls_def installUpdater_calls_def extraction_calls_def exit_calls_def
      Let_def)

subsection \<open>update_extract_thread: a failed or cancelled extraction\<close>

text \<open>
  Claim C6. When the archive opened and \<open>extractArchivePath\<close> returns a result that is not
  positive, the run closes the wait dialog, sets the dialog step to \<open>CANCELED\<close>, calls the
  error dialog with that result and goes to the label \<open>EXIT\<close>: the calls of the run are
  exactly those below, \<open>CANCELED\<close> is the only dialog step the run writes, the step at the
  return is what the error dialog leaves of \<open>CANCELED\<close>, and none of the calls of the
  finalisation (removing the update file, a second \<open>makeHeadBin\<close>, progress 100, closing
  the message dialog) is made.
\<close>

theorem extraction_failure_cancels:
  assumes "0 \<le> archive_open env" and "fst (extraction env) \<le> 0"
  shows "let w' = snd (update_extract_thread cfg env w); cs = run_calls w w' in
           cs = staging_calls @ extraction_calls cfg env
                @ [E_closeWaitDialog, E_setDialogStep DIALOG_STEP_CANCELED,
                   E_errorDialog (fst (extraction env))]
                @ exit_calls (update_thid env)
           \<and> dialog_step w' = error_dialog env (fst (extraction env)) DIALOG_STEP_CANCELED
           \<and> dialog_writes cs = [DIALOG_STEP_CANCELED]
           \<and> E_sceIoRemove DUALSHELLCOMMANDER_UPDATE_FILE \<notin> set cs
           \<and> E_sceMsgDialogProgressBarSetValue 100 \<notin> set cs
           \<and> E_sceMsgDialogClose \<notin> set cs
           \<and> count_list cs E_makeHeadBin = 1"
proof -
  have fixed: "E_sceIoRemove DUALSHELLCOMMANDER_UPDATE_FILE \<notin> set (staging_calls @ extraction_calls cfg env)"
    "E_sceMsgDialogProgressBarSetValue 100 \<notin> set (staging_calls @ extraction_calls cfg env)"
    "E_sceMsgDialogClose \<notin> set (staging_calls @ extraction_calls cfg env)"
    "count_list (staging_calls @ extraction_calls cfg env) E_makeHeadBin = 1"
    by (simp_all add: staging_calls_def installUpdater_calls_def extraction_calls_def Let_def)
  have tail: "E_sceIoRemove DUALSHELLCOMMANDER_UPDATE_FILE \<notin> set (exit_calls (update_thid env))"
    "E_sceMsgDialogProgressBarSetValue 100 \<notin> set (exit_calls (update_thid env))"
    "E_sceMsgDialogClose \<notin> set (exit_calls (update_thid env))"
    "count_list (exit_calls (update_thid env)) E_makeHeadBin = 0"
    by (simp_all add: exit_calls_def)
  show ?thesis
    using fixed tail
    by (simp add: Let_def thread_extraction_fails [OF assms])
qed

theorem extraction_failure_cancels_witness:
  "0 \<le> archive_open (fake_archive\<lparr>extraction := (0, [])\<rparr>)
   \<and> fst (extraction (fake_archive\<lparr>extraction := (0, [])\<rparr>)) \<le> 0
   \<and> dialog_writes (run_calls idle_world
         (snd (update_extract_thread fake_config (fake_archive\<lparr>extraction := (0, [])\<rparr>) idle_world)))
       = [DIALOG_STEP_CANCELED]
   \<and> dialog_step (snd (update_extract_thread fake_config (fake_archive\<lparr>extraction := (0, [])\<rparr>) idle_world))
       = DIALOG_STEP_CANCELED
   \<and> 0 \<le> archive_open (fake_archive\<lparr>extraction := (- 2, [])\<rparr>)
   \<and> fst (extraction (fake_archive\<lparr>extraction := (- 2, [])\<rparr>)) \<le> 0
   \<and> dialog_writes (run_calls idle_world
         (snd (update_extract_thread fake_config (fake_archive\<lparr>extraction := (- 2, [])\<rparr>) idle_world)))
       = [DIALOG_STEP_CANCELED]
   \<and> dialog_step (snd (update_extract_thread fake_config (fake_archive\<lparr>extraction := (- 2, [])\<rparr>) idle_world))
       = DIALOG_STEP_OTHER 1"
proof -
  have a: "0 \<le> archive_open (fake_archive\<lparr>extraction := x\<rparr>)" for x
    by (simp add: fake_archive_def)
  have b: "fst (extraction (fake_archive\<lparr>extraction := (0, [])\<rparr>)) \<le> 0"
    "fst (extraction (fake_archive\<lparr>extraction := (- 2, [])\<rparr>)) \<le> 0"
    by simp_all
  have e: "error_dialog fake_archive res s = (if res < 0 then DIALOG_STEP_OTHER 1 else s)"
    for res s
    by (simp add: fake_archive_def)
  show ?thesis
    using a b extraction_failure_cancels [OF a b(1), of fake_config idle_world]
      extraction_failure_cancels [OF a b(2), of fake_config idle_world]
    by (simp add: Let_def e)
qed

subsection \<open>update_extract_thread: the power lock and the progress worker\<close>

lemma exit_calls_no_lock:
  "E_powerLock \<notin> set (exit_calls t)" "count_list (exit_calls t) E_powerLock = 0"
  "count_list (exit_calls t) E_powerUnlock = 1"
  by (simp_all add: exit_calls_def)

lemma staging_calls_shape:
  obtains rest where "staging_calls = E_powerLock # rest"
    and "E_powerLock \<notin> set rest" and "E_powerUnlock \<notin> set rest"
    and "\<And>t. E_sceKernelWaitThreadEnd t \<notin> set rest"
    and "\<And>m. E_createStartUpdateThread m \<notin> set rest"
  by (simp add: staging_calls_def installUpdater_calls_def)

lemma staging_calls_count:
  "count_list staging_calls E_powerLock = 1" "count_list staging_calls E_powerUnlock = 0"
  by (simp_all add: staging_calls_def installUpdater_calls_def)

lemma extraction_calls_shape:
  "E_powerLock \<notin> set (extraction_calls cfg env)" "E_powerUnlock \<notin> set (extraction_calls cfg env)"
  "E_sceKernelWaitThreadEnd t \<notin> set (extraction_calls cfg env)"
  "E_createStartUpdateThread (progress_max cfg (fst (path_info env)) (fst (snd (path_info env))))
     \<in> set (extraction_calls cfg env)"
  "count_list (extraction_calls cfg env) E_powerLock = 0"
  "count_list (extraction_calls cfg env) E_powerUnlock = 0"
  by (simp_all add: extraction_calls_def Let_def)

text \<open>
  Claim C1. On every way through \<open>update_extract_thread\<close> (the archive does not open, the
  extraction fails or is cancelled, the header file cannot be rebuilt, success) the calls of
  the run start with \<open>powerLock\<close> and end with \<open>powerUnlock\<close> followed by the thread's exit;
  there is no other \<open>powerLock\<close> or \<open>powerUnlock\<close>, so the lock is taken once and released
  once. The progress worker is started exactly when the archive opened; when it was started
  and \<open>createStartUpdateThread\<close> returned a thread id (not negative), the call just before
  \<open>powerUnlock\<close> is \<open>sceKernelWaitThreadEnd\<close> on that id, and no wait is made otherwise.
\<close>

theorem power_lock_released_once:
  "let w' = snd (update_extract_thread cfg env w); cs = run_calls w w';
       spawned = (0 \<le> archive_open env \<and> 0 \<le> update_thid env)
   in fst (update_extract_thread cfg env w) = 0
      \<and> trace w' = trace w @ cs
      \<and> (\<exists>mid. cs = E_powerLock # mid
                     @ (if spawned then [E_sceKernelWaitThreadEnd (update_thid env)] else [])
                     @ [E_powerUnlock, E_sceKernelExitDeleteThread 0]
              \<and> E_powerLock \<notin> set mid \<and> E_powerUnlock \<notin> set mid
              \<and> (\<forall>t. E_sceKernelWaitThreadEnd t \<notin> set mid)
              \<and> ((\<exists>m. E_createStartUpdateThread m \<in> set mid) = (0 \<le> archive_open env)))
      \<and> count_list cs E_powerLock = 1 \<and> count_list cs E_powerUnlock = 1"
proof -
  let ?cs = "run_calls w (snd (update_extract_thread cfg env w))"
  let ?P = "\<lambda>mid. ?cs = E_powerLock # mid
                     @ (if 0 \<le> archive_open env \<and> 0 \<le> update_thid env
                        then [E_sceKernelWaitThreadEnd (update_thid env)] else [])
                     @ [E_powerUnlock, E_sceKernelExitDeleteThread 0]
              \<and> E_powerLock \<notin> set mid \<and> E_powerUnlock \<notin> set mid
              \<and> (\<forall>t. E_sceKernelWaitThreadEnd t \<notin> set mid)
              \<and> ((\<exists>m. E_createStartUpdateThread m \<in> set mid) = (0 \<le> archive_open env))"
  have r: "fst (update_extract_thread cfg env w) = 0"
    by (simp add: update_extract_thread_def update_extract_archive_def Let_def case_prod_beta
        exit_fields)
  obtain rest where rest: "staging_calls = E_powerLock # rest"
    and rest_quiet: "E_powerLock \<notin> set rest" "E_powerUnlock \<notin> set rest"
      "\<And>t. E_sceKernelWaitThreadEnd t \<notin> set rest"
      "\<And>m. E_createStartUpdateThread m \<notin> set rest"
    by (rule staging_calls_shape) blast
  consider (a) "archive_open env < 0"
    | (b) "0 \<le> archive_open env" "fst (extraction env) \<le> 0"
    | (c) "0 \<le> archive_open env" "0 < fst (extraction env)" "manifest_result cfg env < 0"
    | (d) "0 \<le> archive_open env" "0 < fst (extraction env)" "0 \<le> manifest_result cfg env"
    by linarith
  then have "(\<exists>mid. ?P mid) \<and> count_list ?cs E_powerLock = 1 \<and> count_list ?cs E_powerUnlock = 1"
  proof cases
    case a
    have "?P (rest @ [E_archiveClearPassword, E_archiveOpen DUALSHELLCOMMANDER_UPDATE_FILE,
                E_closeWaitDialog, E_errorDialog (archive_open env)])"
      using a
      by (simp add: thread_open_fails rest rest_quiet exit_calls_def)
    moreover have "count_list ?cs E_powerLock = 1 \<and> count_list ?cs E_powerUnlock = 1"
      using a by (simp add: thread_open_fails staging_calls_count exit_calls_no_lock)
    ultimately show ?thesis by blast
  next
    case b
    have "?P (rest @ extraction_calls cfg env
               @ [E_closeWaitDialog, E_setDialogStep DIALOG_STEP_CANCELED,
                  E_errorDialog (fst (extraction env))])"
      using b extraction_calls_shape(4) [of cfg env]
      by (auto simp add: thread_extraction_fails rest rest_quiet extraction_calls_shape(1-3)
          exit_calls_def)
    moreover have "count_list ?cs E_powerLock = 1 \<and> count_list ?cs E_powerUnlock = 1"
      using b by (simp add: thread_extraction_fails staging_calls_count extraction_calls_shape
          exit_calls_no_lock)
    ultimately show ?thesis by blast
  next
    case c
    have "?P (rest @ extraction_calls cfg env
               @ [E_sceIoRemove DUALSHELLCOMMANDER_UPDATE_FILE, E_makeHeadBin,
                  E_closeWaitDialog, E_errorDialog (manifest_result cfg env)])"
      using c extraction_calls_shape(4) [of cfg env]
      by (auto simp add: thread_manifest_fails rest rest_quiet extraction_calls_shape(1-3)
          exit_calls_def)
    moreover have "count_list ?cs E_powerLock = 1 \<and> count_list ?cs E_powerUnlock = 1"
      using c by (simp add: thread_manifest_fails staging_calls_count extraction_calls_shape
          exit_calls_no_lock)
    ultimately show ?thesis by blast
  next
    case d
    have "?P (rest @ extraction_calls cfg env
               @ [E_sceIoRemove DUALSHELLCOMMANDER_UPDATE_FILE, E_makeHeadBin,
                  E_sceMsgDialogProgressBarSetValue 100, E_sceKernelDelayThread COUNTUP_WAIT,
                  E_sceMsgDialogClose, E_setDialogStep DIALOG_STEP_EXTRACTED])"
      using d extraction_calls_shape(4) [of cfg env]
      by (auto simp add: thread_extracted rest rest_quiet extraction_calls_shape(1-3)
          exit_calls_def)
    moreover have "count_list ?cs E_powerLock = 1 \<and> count_list ?cs E_powerUnlock = 1"
      using d by (simp add: thread_extracted staging_calls_count extraction_calls_shape
          exit_calls_no_lock)
    ultimately show ?thesis by blast
  qed
  then show ?thesis
    using r thread_trace_extends [of cfg env w] by (simp add: Let_def)
qed

subsection \<open>update_extract_thread: what a fatal failure does to the dialog step\<close>

text \<open>
  On each of the three fatal failures the run closes the wait dialog and calls the error
  dialog with the numeric result. The run itself writes the dialog step only when the
  extraction failed or was cancelled (to \<open>CANCELED\<close>, before the error dialog is called).
  When the archive does not open, or the header file cannot be rebuilt,
  \<open>update_extract_thread\<close> makes no \<open>setDialogStep\<close> call of its own. In all three cases the
  dialog step at the return is the one the error dialog leaves: no call after it touches
  the step. Whether that step is a terminal marker is decided by \<open>errorDialog\<close>.
\<close>

lemma fatal_failures_call_error_dialog:
  "(archive_open env < 0 \<longrightarrow>
      (let w' = snd (update_extract_thread cfg env w); cs = run_calls w w' in
         cs = staging_calls
              @ [E_archiveClearPassword, E_archiveOpen DUALSHELLCOMMANDER_UPDATE_FILE,
                 E_closeWaitDialog, E_errorDialog (archive_open env)]
              @ exit_calls (- 1)
         \<and> dialog_writes cs = []
         \<and> dialog_step w' = error_dialog env (archive_open env) (dialog_step w)))
   \<and> (0 \<le> archive_open env \<and> fst (extraction env) \<le> 0 \<longrightarrow>
      (let w' = snd (update_extract_thread cfg env w); cs = run_calls w w' in
         cs = staging_calls @ extraction_calls cfg env
              @ [E_closeWaitDialog, E_setDialogStep DIALOG_STEP_CANCELED,
                 E_errorDialog (fst (extraction env))]
              @ exit_calls (update_thid env)
         \<and> dialog_writes cs = [DIALOG_STEP_CANCELED]
         \<and> dialog_step w' = error_dialog env (fst (extraction env)) DIALOG_STEP_CANCELED))
   \<and> (0 \<le> archive_open env \<and> 0 < fst (extraction env) \<and> manifest_result cfg env < 0 \<longrightarrow>
      (let w' = snd (update_extract_thread cfg env w); cs = run_calls w w' in
         cs = staging_calls @ extraction_calls cfg env
              @ [E_sceIoRemove DUALSHELLCOMMANDER_UPDATE_FILE, E_makeHeadBin,
                 E_closeWaitDialog, E_errorDialog (manifest_result cfg env)]
              @ exit_calls (update_thid env)
         \<and> dialog_writes cs = []
         \<and> dialog_step w' = error_dialog env (manifest_result cfg env) (dialog_step w)))"
  by (simp add: Let_def thread_open_fails thread_extraction_fails thread_manifest_fails)

subsection \<open>update_extract_thread: the progress maximum and completion\<close>

lemma unat_progress_max:
  "unat (progress_max cfg S D) =
     (unat S + unat D * unat (DIRECTORY_SIZE cfg) mod 2 ^ 32) mod 2 ^ 64"
proof -
  have "unat (ucast (D * DIRECTORY_SIZE cfg) :: 64 word) = unat (D * DIRECTORY_SIZE cfg)"
  proof -
    have "unat (D * DIRECTORY_SIZE cfg) < 2 ^ 32"
      using unsigned_less [of "D * DIRECTORY_SIZE cfg"] by simp
    then have "unat (D * DIRECTORY_SIZE cfg) < 2 ^ 64"
      by (rule less_trans) simp
    then show ?thesis
      by (simp add: unsigned_ucast_eq take_bit_nat_eq_self)
  qed
  then show ?thesis
    by (simp add: progress_max_def unat_word_ariths)
qed

lemma progress_max_exact:
  assumes "unat D * unat (DIRECTORY_SIZE cfg) < 2 ^ 32"
    and "unat S + unat D * unat (DIRECTORY_SIZE cfg) < 2 ^ 64"
  shows "unat (progress_max cfg S D) = unat S + unat D * unat (DIRECTORY_SIZE cfg)"
  using assms by (simp add: unat_progress_max)


text \<open>
  Claim C4, as amended. When the archive opened and its root entry reports size \<open>S\<close> and
  \<open>D\<close> directories, the maximum passed to \<open>createStartUpdateThread\<close> and to
  \<open>extractArchivePath\<close> is \<open>S + D * DIRECTORY_SIZE\<close> in the arithmetic of the operand types:
  the product is reduced modulo \<open>2^32\<close> and the sum modulo \<open>2^64\<close>. It is the exact sum
  whenever the product is below \<open>2^32\<close> and the sum below \<open>2^64\<close>. When the extraction then
  succeeds and the header file is rebuilt, whatever progress was accumulated, the run sets
  the progress bar to 100, closes the dialog and sets the dialog step to \<open>EXTRACTED\<close>.
\<close>

theorem progress_maximum_and_completion:
  assumes "path_info env = (S, D, F)" and "0 \<le> archive_open env"
  shows "let w' = snd (update_extract_thread cfg env w); cs = run_calls w w';
             m = progress_max cfg S D in
           unat m = (unat S + unat D * unat (DIRECTORY_SIZE cfg) mod 2 ^ 32) mod 2 ^ 64
           \<and> (unat D * unat (DIRECTORY_SIZE cfg) < 2 ^ 32
                \<and> unat S + unat D * unat (DIRECTORY_SIZE cfg) < 2 ^ 64
               \<longrightarrow> unat m = unat S + unat D * unat (DIRECTORY_SIZE cfg))
           \<and> E_createStartUpdateThread m \<in> set cs
           \<and> E_extractArchivePath (DUALSHELLCOMMANDER_UPDATE_FILE @ ''/'') (PACKAGE_DIR @ ''/'') m
               \<in> set cs
           \<and> (0 < fst (extraction env) \<and> 0 \<le> manifest_result cfg env \<longrightarrow>
                cs = staging_calls @ extraction_calls cfg env
                     @ [E_sceIoRemove DUALSHELLCOMMANDER_UPDATE_FILE, E_makeHeadBin,
                        E_sceMsgDialogProgressBarSetValue 100,
                        E_sceKernelDelayThread COUNTUP_WAIT,
                        E_sceMsgDialogClose, E_setDialogStep DIALOG_STEP_EXTRACTED]
                     @ exit_calls (update_thid env)
                \<and> dialog_step w' = DIALOG_STEP_EXTRACTED)"
proof -
  let ?cs = "run_calls w (snd (update_extract_thread cfg env w))"
  let ?m = "progress_max cfg S D"
  have calls: "E_createStartUpdateThread ?m \<in> set (extraction_calls cfg env)"
    "E_extractArchivePath (DUALSHELLCOMMANDER_UPDATE_FILE @ ''/'') (PACKAGE_DIR @ ''/'') ?m
       \<in> set (extraction_calls cfg env)"
    by (simp_all add: extraction_calls_def Let_def assms(1))
  have "set (extraction_calls cfg env) \<subseteq> set ?cs"
  proof -
    consider (b) "fst (extraction env) \<le> 0"
      | (c) "0 < fst (extraction env)" "manifest_result cfg env < 0"
      | (d) "0 < fst (extraction env)" "0 \<le> manifest_result cfg env"
      by linarith
    then show ?thesis
      using assms(2)
      by cases (auto simp add: thread_extraction_fails thread_manifest_fails thread_extracted)
  qed
  then have "E_createStartUpdateThread ?m \<in> set ?cs"
    and "E_extractArchivePath (DUALSHELLCOMMANDER_UPDATE_FILE @ ''/'') (PACKAGE_DIR @ ''/'') ?m
       \<in> set ?cs"
    using calls by blast+
  then show ?thesis
    using assms(2)
    by (simp add: Let_def unat_progress_max thread_extracted)
qed

theorem progress_maximum_and_completion_witness:
  "path_info fake_archive = (1000, 2, 5) \<and> 0 \<le> archive_open fake_archive
   \<and> unat (progress_max fake_config 1000 2) = 1200
   \<and> E_createStartUpdateThread 1200
       \<in> set (run_calls idle_world (snd (update_extract_thread fake_config fake_archive idle_world)))
   \<and> 0 < fst (extraction fake_archive) \<and> 0 \<le> manifest_result fake_config fake_archive
   \<and> E_sceMsgDialogProgressBarSetValue 100
       \<in> set (run_calls idle_world (snd (update_extract_thread fake_config fake_archive idle_world)))
   \<and> dialog_step (snd (update_extract_thread fake_config fake_archive idle_world))
       = DIALOG_STEP_EXTRACTED"
proof -
  have a: "path_info fake_archive = (1000, 2, 5)" and b: "0 \<le> archive_open fake_archive"
    by (simp_all add: fake_archive_def)
  have c: "0 < fst (extraction fake_archive)" "0 \<le> manifest_result fake_config fake_archive"
    by (simp_all add: fake_archive_def fake_config_def manifest_result_def extracted_descriptor_def
        extracted_entries_def file_content_def PACKAGE_DIR_def)
  have d: "progress_max fake_config 1000 2 = 1200"
    by (simp add: progress_max_def fake_config_def)
  show ?thesis
    using a b c progress_maximum_and_completion [OF a b, of fake_config idle_world]
    by (simp add: Let_def d extraction_calls_def fake_archive_def)
qed

text \<open>
  The claim as stated fails where the fixed-width arithmetic wraps. With the weight 100 and
  42949673 directories the product is \<open>4294967300\<close>, which is 4 modulo \<open>2^32\<close>: the maximum
  computed for size 1000 is 1004. With size \<open>2^64 - 1\<close> and one directory the sum wraps to 99.
\<close>

theorem progress_maximum_wraps:
  "unat (progress_max fake_config 1000 42949673) = 1004
   \<and> unat (progress_max fake_config 1000 42949673)
       \<noteq> unat (1000 :: 64 word) + unat (42949673 :: 32 word) * unat (DIRECTORY_SIZE fake_config)
   \<and> unat (progress_max fake_config 0xFFFFFFFFFFFFFFFF 1) = 99
   \<and> unat (progress_max fake_config 0xFFFFFFFFFFFFFFFF 1)
       \<noteq> unat (0xFFFFFFFFFFFFFFFF :: 64 word) + unat (1 :: 32 word) * unat (DIRECTORY_SIZE fake_config)"
  by (simp add: progress_max_def fake_config_def)

subsection \<open>update_extract_thread: the staging directory when the archive is opened\<close>

lemma archive_starts_with_open:
  "\<exists>rest. trace (snd (update_extract_archive cfg env t w)) =
      trace w @ E_archiveClearPassword # E_archiveOpen DUALSHELLCOMMANDER_UPDATE_FILE # rest"
proof -
  have s: "fs (update_extract_staging cfg w0) ''ux0:data/pkg/sce_sys/param.sfo'' = None" for w0
    by (rule staging_no_descriptor)
  consider (a) "archive_open env < 0"
    | (b) "0 \<le> archive_open env"
    by linarith
  then show ?thesis
  proof cases
    case a
    then show ?thesis by (simp add: archive_open_fails)
  next
    case b
    then show ?thesis
      by (simp add: update_extract_archive_def Let_def case_prod_beta archiveOpen_def
          getArchivePathInfo_def createStartUpdateThread_def extractArchivePath_fields exit_fields
          sceIoRemove_fields makeHeadBin_fields)
  qed
qed

lemma staged_subtree:
  "subtree PACKAGE_DIR ((without PACKAGE_DIR f)(PACKAGE_DIR \<mapsto> Dir)) = [PACKAGE_DIR \<mapsto> Dir]"
  by simp

text \<open>
  Claim C9. In every run of \<open>update_extract_thread\<close>, the calls that follow those of
  \<open>installUpdater\<close> are \<open>removePath\<close> and \<open>sceIoMkdir\<close> on the package directory, and the
  next two calls are \<open>archiveClearPassword\<close> and \<open>archiveOpen\<close>. In the world in which the
  archive is opened (and into which the extraction then writes) the package directory
  exists and has nothing below it: the updater's executable, descriptor and header file are
  not there. They are in the promoted package.
\<close>

theorem staging_cleared_before_archive_opens:
  "let w1 = update_extract_staging cfg w in
     update_extract_thread cfg env w = update_extract_archive cfg env (- 1) w1
     \<and> run_calls w w1 =
         [E_powerLock, E_sceMsgDialogProgressBarSetValue 0, E_sceKernelDelayThread DIALOG_WAIT]
         @ installUpdater_calls @ [E_removePath PACKAGE_DIR, E_sceIoMkdir PACKAGE_DIR]
     \<and> (\<exists>rest. trace (snd (update_extract_thread cfg env w)) =
           trace w1 @ E_archiveClearPassword # E_archiveOpen DUALSHELLCOMMANDER_UPDATE_FILE # rest)
     \<and> subtree PACKAGE_DIR (fs w1) = [PACKAGE_DIR \<mapsto> Dir]
     \<and> fs w1 ''ux0:data/pkg/eboot.bin'' = None
     \<and> fs w1 ''ux0:data/pkg/sce_sys/param.sfo'' = None
     \<and> fs w1 HEAD_BIN = None
     \<and> promoted w1 = Some (updater_package cfg)
     \<and> (0 \<le> archive_open env \<and> fst (extraction env) \<le> 0 \<longrightarrow>
          fs (snd (update_extract_thread cfg env w)) = extracted_entries env (fs w1))"
proof -
  have paths: "''ux0:data/pkg/eboot.bin'' \<noteq> PACKAGE_DIR"
    "''ux0:data/pkg/sce_sys/param.sfo'' \<noteq> PACKAGE_DIR" "HEAD_BIN \<noteq> PACKAGE_DIR"
    by (simp_all add: PACKAGE_DIR_def HEAD_BIN_def)
  show ?thesis
    using archive_starts_with_open [of cfg env "- 1" "update_extract_staging cfg w"] paths
    by (simp add: Let_def thread_unfold staging_trace staging_calls_def run_calls_def staging_fs
        staging_promoted without_apply archive_extraction_fails)
qed

theorem staging_cleared_before_archive_opens_witness:
  "0 \<le> archive_open (fake_archive\<lparr>extraction := (0, [(''eboot.bin'', File [1])])\<rparr>)
   \<and> fst (extraction (fake_archive\<lparr>extraction := (0, [(''eboot.bin'', File [1])])\<rparr>)) \<le> 0
   \<and> fs (snd (update_extract_thread fake_config
          (fake_archive\<lparr>extraction := (0, [(''eboot.bin'', File [1])])\<rparr>) idle_world))
       = [PACKAGE_DIR \<mapsto> Dir, ''ux0:data/pkg/eboot.bin'' \<mapsto> File [1]]"
proof -
  let ?env = "fake_archive\<lparr>extraction := (0, [(''eboot.bin'', File [1])])\<rparr>"
  have a: "0 \<le> archive_open ?env" and b: "fst (extraction ?env) \<le> 0"
    by (simp_all add: fake_archive_def)
  have "fs (snd (update_extract_thread fake_config ?env idle_world)) =
          extracted_entries ?env (fs (update_extract_staging fake_config idle_world))"
    using a b staging_cleared_before_archive_opens
      [where cfg = fake_config and w = idle_world and env = ?env]
    unfolding Let_def by blast
  then show ?thesis
    using a b
    by (simp add: staging_fs extracted_entries_def idle_world_def without_def PACKAGE_DIR_def)
qed

subsection \<open>network_update_thread: the collaborators\<close>

lemma downloadFile_fields:
  "fst (downloadFile env url dst w) = fst (download env)"
  "trace (snd (downloadFile env url dst w)) = trace w @ [E_downloadFile url dst]"
  "dialog_step (snd (downloadFile env url dst w)) = dialog_step w"
  "fs (snd (downloadFile env url dst w)) =
     (if 0 < fst (download env) then (fs w)(dst \<mapsto> File (snd (download env))) else fs w)"
  by (simp_all add: downloadFile_def Let_def case_prod_beta)

lemma getDownloadFileSize_fields:
  "fst (getDownloadFileSize env url w) = size_query env"
  "snd (getDownloadFileSize env url w) = emit (E_getDownloadFileSize url) w"
  by (simp_all add: getDownloadFileSize_def)

lemma ReadFile_fields:
  "fst (ReadFile env p n w) =
     (if read_fault env then [] else case file_content (fs w) p of None \<Rightarrow> [] | Some bs \<Rightarrow> take n bs)"
  "snd (ReadFile env p n w) = emit (E_ReadFile p n) w"
  by (simp_all add: ReadFile_def)

lemma downloadFileProcess_trace:
  "trace (snd (downloadFileProcess env url dst step w)) = trace w @ [E_downloadFileProcess url dst step]"
  by (simp add: downloadFileProcess_def Let_def case_prod_beta split: option.split)

lemma ui_thread_trace [simp]: "trace (ui_thread u w) = trace w"
  by (simp add: ui_thread_def split: option.split)

lemma wait_for_response_extends:
  "\<exists>cs. trace (poll_world (wait_for_response us w)) = trace w @ cs"
proof (induction us arbitrary: w)
  case Nil
  show ?case by simp
next
  case (Cons u us)
  show ?case
  proof (cases "getDialogStep w = DIALOG_STEP_UPDATE_QUESTION")
    case True
    obtain cs where
      "trace (poll_world (wait_for_response us
          (ui_thread u (sceKernelDelayThread (Microseconds (10 * 1000)) w)))) =
       trace (ui_thread u (sceKernelDelayThread (Microseconds (10 * 1000)) w)) @ cs"
      using Cons.IH by blast
    then show ?thesis using True by simp
  next
    case False
    then show ?thesis by simp
  qed
qed

lemma store_nothing [simp]: "store_bytes_u32 0 [] = 0"
  by (simp add: store_bytes_u32_def bytes_of_u32_def u32_of_bytes_def)

text \<open>Every 32-bit version is what its four bytes parse to.\<close>

lemma store_bytes_of_u32: "store_bytes_u32 0 (take 4 (bytes_of_u32 v)) = v"
  unfolding store_bytes_u32_def bytes_of_u32_def u32_of_bytes_def
  apply simp
  apply (rule bit_word_eqI)
  apply (auto simp add: bit_simps)
  subgoal for n by (cases "n < 24") simp_all
  done

subsection \<open>network_update_thread: the ways out before the question\<close>

lemma returned_pair [simp]: "returned (r, w) = Returned r w"
  by (simp add: returned_def)

lemma check_size_fails:
  assumes "\<not> (0 \<le> fst (size_query env) \<and> snd (size_query env) = 4)"
  shows "network_update_thread cfg env w =
           Returned 0 (emit (E_sceKernelExitDeleteThread 0)
             (emit (E_getDownloadFileSize (BASE_ADDRESS @ VERSION_URL)) w))"
  using assms
  by (auto simp add: network_update_thread_def Let_def case_prod_beta getDownloadFileSize_fields)

lemma check_download_fails:
  assumes "0 \<le> fst (size_query env)" "snd (size_query env) = 4" "fst (download env) \<le> 0"
  shows "\<exists>w'. network_update_thread cfg env w = Returned 0 w'
           \<and> trace w' = trace w @ [E_getDownloadFileSize (BASE_ADDRESS @ VERSION_URL),
                E_downloadFile (BASE_ADDRESS @ VERSION_URL) DUALSHELLCOMMANDER_VERSION_FILE,
                E_sceKernelExitDeleteThread 0]
           \<and> dialog_step w' = dialog_step w"
  using assms
  by (simp add: network_update_thread_def Let_def case_prod_beta getDownloadFileSize_fields
      downloadFile_fields)

text \<open>The value of \<open>version\<close> after line 50, when the descriptor was downloaded.\<close>

lemma version_read:
  assumes "0 < fst (download env)"
  shows "fst (ReadFile env DUALSHELLCOMMANDER_VERSION_FILE 4
            (snd (downloadFile env url DUALSHELLCOMMANDER_VERSION_FILE w0)))
         = (if read_fault env then [] else take 4 (snd (download env)))"
  using assms by (simp add: ReadFile_fields downloadFile_fields file_content_def)

lemma check_no_update:
  assumes "0 \<le> fst (size_query env)" "snd (size_query env) = 4" "0 < fst (download env)"
    and "dialog_step w \<noteq> DIALOG_STEP_NONE
         \<or> \<not> DUALSHELLCOMMANDER_VERSION cfg
               < store_bytes_u32 0 (if read_fault env then [] else take 4 (snd (download env)))"
  shows "\<exists>w'. network_update_thread cfg env w = Returned 0 w'
           \<and> trace w' = trace w @ check_calls @ [E_sceKernelExitDeleteThread 0]
           \<and> dialog_step w' = dialog_step w
           \<and> fs w' DUALSHELLCOMMANDER_VERSION_FILE = None"
  using assms
  by (auto simp add: network_update_thread_def Let_def case_prod_beta getDownloadFileSize_fields
      downloadFile_fields(1-3) ReadFile_fields(2) version_read check_calls_def getDialogStep_def
      sceIoRemove_file [where bs = "snd (download env)"] downloadFile_fields(4))

lemma check_offers_update:
  assumes "0 \<le> fst (size_query env)" "snd (size_query env) = 4" "0 < fst (download env)"
    and "dialog_step w = DIALOG_STEP_NONE"
    and "DUALSHELLCOMMANDER_VERSION cfg
           < store_bytes_u32 0 (if read_fault env then [] else take 4 (snd (download env)))"
  shows "\<exists>rest. trace (final_world (network_update_thread cfg env w)) =
           trace w @ check_calls
           @ [E_initMessageDialog (version_string
                (store_bytes_u32 0 (if read_fault env then [] else take 4 (snd (download env))))),
              E_setDialogStep DIALOG_STEP_UPDATE_QUESTION] @ rest"
proof -
  define v where "v = store_bytes_u32 0 (if read_fault env then [] else take 4 (snd (download env)))"
  define w1 where "w1 = sceIoRemove DUALSHELLCOMMANDER_VERSION_FILE
     (snd (ReadFile env DUALSHELLCOMMANDER_VERSION_FILE 4
       (snd (downloadFile env (BASE_ADDRESS @ VERSION_URL) DUALSHELLCOMMANDER_VERSION_FILE
         (snd (getDownloadFileSize env (BASE_ADDRESS @ VERSION_URL) w))))))"
  define w2 where
    "w2 = setDialogStep DIALOG_STEP_UPDATE_QUESTION (initMessageDialog (version_string v) w1)"
  have t2: "trace w2 = trace w @ check_calls
       @ [E_initMessageDialog (version_string v), E_setDialogStep DIALOG_STEP_UPDATE_QUESTION]"
    by (simp add: w2_def w1_def getDownloadFileSize_fields downloadFile_fields ReadFile_fields
        check_calls_def)
  have d1: "dialog_step w1 = DIALOG_STEP_NONE"
    using assms(4)
    by (simp add: w1_def getDownloadFileSize_fields downloadFile_fields ReadFile_fields)
  obtain cs where cs: "trace (poll_world (wait_for_response (ui_writes env) w2)) = trace w2 @ cs"
    using wait_for_response_extends by blast
  have out: "network_update_thread cfg env w =
      (case wait_for_response (ui_writes env) w2 of
         Unanswered w \<Rightarrow> Blocked w
       | Answered w \<Rightarrow>
           if getDialogStep w = DIALOG_STEP_NONE
           then returned (sceKernelExitDeleteThread 0 w)
           else returned (downloadFileProcess env (BASE_ADDRESS @ ''/DualShellCommander.vpk'')
                  DUALSHELLCOMMANDER_UPDATE_FILE DIALOG_STEP_DOWNLOADED w))"
    using assms(1,2,3,5) d1
    unfolding w2_def w1_def v_def
    by (simp add: network_update_thread_def Let_def case_prod_beta getDownloadFileSize_fields(1)
        downloadFile_fields(1) version_read getDialogStep_def del: simple_calls)
  have "\<exists>rest. trace (final_world (network_update_thread cfg env w)) = trace w2 @ rest"
  proof (cases "wait_for_response (ui_writes env) w2")
    case (Answered wa)
    then have "trace wa = trace w2 @ cs" using cs by simp
    then show ?thesis
      unfolding out Answered
      by (simp add: returned_def downloadFileProcess_trace)
  next
    case (Unanswered wa)
    then have "trace wa = trace w2 @ cs" using cs by simp
    then show ?thesis
      unfolding out Unanswered by simp
  qed
  then show ?thesis
    unfolding t2 v_def by auto
qed

lemma prompts_simps [simp]:
  "prompts [] = []"
  "prompts (xs @ ys) = prompts xs @ prompts ys"
  "prompts check_calls = []"
  "prompts [E_sceKernelExitDeleteThread r] = []"
  "dialog_writes check_calls = []"
  by (simp_all add: prompts_def check_calls_def)

subsection \<open>network_update_thread: when the update is offered\<close>



subsection \<open>network_update_thread: a dialog that is already running\<close>

text \<open>
  Claim C7. When the dialog step is anything but \<open>NONE\<close> at the start of the check, then
  whatever the server answers and whatever the remote version is, the thread returns
  without showing the question: it makes no \<open>initMessageDialog\<close>, \<open>setDialogStep\<close> or
  \<open>downloadFileProcess\<close> call, and the dialog step is the one it found.
\<close>

theorem busy_dialog_not_interrupted:
  assumes "dialog_step w \<noteq> DIALOG_STEP_NONE"
  shows "\<exists>w'. network_update_thread cfg env w = Returned 0 w'
           \<and> trace w' = trace w @ run_calls w w'
           \<and> prompts (run_calls w w') = []
           \<and> dialog_writes (run_calls w w') = []
           \<and> dialog_step w' = dialog_step w"
proof -
  consider (a) "\<not> (0 \<le> fst (size_query env) \<and> snd (size_query env) = 4)"
    | (b) "0 \<le> fst (size_query env)" "snd (size_query env) = 4" "fst (download env) \<le> 0"
    | (c) "0 \<le> fst (size_query env)" "snd (size_query env) = 4" "0 < fst (download env)"
    by linarith
  then show ?thesis
  proof cases
    case a
    show ?thesis
      by (simp add: check_size_fails [OF a] run_calls_def prompts_def dialog_writes_def)
  next
    case b
    from check_download_fails [OF b, of cfg w]
    show ?thesis
      by (auto simp add: run_calls_def prompts_def dialog_writes_def)
  next
    case c
    from check_no_update [OF c, of w cfg] assms
    show ?thesis
      by (auto simp add: run_calls_def)
  qed
qed

theorem busy_dialog_not_interrupted_witness:
  "dialog_step (idle_world\<lparr>dialog_step := DIALOG_STEP_OTHER 7\<rparr>) \<noteq> DIALOG_STEP_NONE
   \<and> (\<exists>w'. network_update_thread fake_config fake_server
              (idle_world\<lparr>dialog_step := DIALOG_STEP_OTHER 7\<rparr>) = Returned 0 w'
         \<and> prompts (run_calls (idle_world\<lparr>dialog_step := DIALOG_STEP_OTHER 7\<rparr>) w') = []
         \<and> dialog_step w' = DIALOG_STEP_OTHER 7)"
proof -
  have h: "dialog_step (idle_world\<lparr>dialog_step := DIALOG_STEP_OTHER 7\<rparr>) \<noteq> DIALOG_STEP_NONE"
    by simp
  show ?thesis
    using h busy_dialog_not_interrupted [OF h, of fake_config fake_server]
    by auto
qed

subsection \<open>network_update_thread: a descriptor that cannot be read\<close>

text \<open>
  Claim C10. The result of \<open>ReadFile\<close> is not looked at, and \<open>version\<close> starts as 0. When
  the size check passed and the download succeeded but the read fails or delivers no byte,
  \<open>version\<close> stays 0, which is greater than no running version, so the thread returns
  after the four calls of the check, as when no update is available: no question is shown,
  the dialog step is unchanged, and the descriptor file has been removed.
\<close>

theorem unread_descriptor_means_no_update:
  assumes "0 \<le> fst (size_query env)" and "snd (size_query env) = 4"
    and "0 < fst (download env)"
    and "read_fault env \<or> snd (download env) = []"
  shows "fst (ReadFile env DUALSHELLCOMMANDER_VERSION_FILE 4
            (snd (downloadFile env (BASE_ADDRESS @ VERSION_URL) DUALSHELLCOMMANDER_VERSION_FILE
              (snd (getDownloadFileSize env (BASE_ADDRESS @ VERSION_URL) w))))) = []
         \<and> parsed_version env = 0
         \<and> \<not> DUALSHELLCOMMANDER_VERSION cfg < parsed_version env
         \<and> (\<exists>w'. network_update_thread cfg env w = Returned 0 w'
               \<and> run_calls w w' = check_calls @ [E_sceKernelExitDeleteThread 0]
               \<and> prompts (run_calls w w') = []
               \<and> dialog_step w' = dialog_step w
               \<and> fs w' DUALSHELLCOMMANDER_VERSION_FILE = None)"
proof -
  have "dialog_step w \<noteq> DIALOG_STEP_NONE
         \<or> \<not> DUALSHELLCOMMANDER_VERSION cfg
               < store_bytes_u32 0 (if read_fault env then [] else take 4 (snd (download env)))"
    using assms(4) by auto
  from check_no_update [OF assms(1,2,3) this]
  obtain w' where "network_update_thread cfg env w = Returned 0 w'"
    and "trace w' = trace w @ check_calls @ [E_sceKernelExitDeleteThread 0]"
    and "dialog_step w' = dialog_step w"
    and "fs w' DUALSHELLCOMMANDER_VERSION_FILE = None"
    by blast
  then have "\<exists>w'. network_update_thread cfg env w = Returned 0 w'
               \<and> run_calls w w' = check_calls @ [E_sceKernelExitDeleteThread 0]
               \<and> prompts (run_calls w w') = []
               \<and> dialog_step w' = dialog_step w
               \<and> fs w' DUALSHELLCOMMANDER_VERSION_FILE = None"
    by (simp add: run_calls_def)
  moreover have "fst (ReadFile env DUALSHELLCOMMANDER_VERSION_FILE 4
            (snd (downloadFile env (BASE_ADDRESS @ VERSION_URL) DUALSHELLCOMMANDER_VERSION_FILE
              (snd (getDownloadFileSize env (BASE_ADDRESS @ VERSION_URL) w))))) = []"
    using assms(4) by (auto simp add: version_read [OF assms(3)])
  moreover have "parsed_version env = 0"
    using assms(4) unfolding parsed_version_def by auto
  ultimately show ?thesis
    by simp
qed

theorem unread_descriptor_means_no_update_witness:
  "0 \<le> fst (size_query (fake_server\<lparr>read_fault := True\<rparr>))
   \<and> snd (size_query (fake_server\<lparr>read_fault := True\<rparr>)) = 4
   \<and> 0 < fst (download (fake_server\<lparr>read_fault := True\<rparr>))
   \<and> read_fault (fake_server\<lparr>read_fault := True\<rparr>)
   \<and> (\<exists>w'. network_update_thread fake_config (fake_server\<lparr>read_fault := True\<rparr>) idle_world
              = Returned 0 w'
         \<and> run_calls idle_world w' = check_calls @ [E_sceKernelExitDeleteThread 0]
         \<and> dialog_step w' = DIALOG_STEP_NONE
         \<and> fs w' DUALSHELLCOMMANDER_VERSION_FILE = None)"
proof -
  have h: "0 \<le> fst (size_query (fake_server\<lparr>read_fault := True\<rparr>))"
    "snd (size_query (fake_server\<lparr>read_fault := True\<rparr>)) = 4"
    "0 < fst (download (fake_server\<lparr>read_fault := True\<rparr>))"
    by (simp_all add: fake_server_def)
  have r: "read_fault (fake_server\<lparr>read_fault := True\<rparr>)
           \<or> snd (download (fake_server\<lparr>read_fault := True\<rparr>)) = []"
    by simp
  have "\<exists>w'. network_update_thread fake_config (fake_server\<lparr>read_fault := True\<rparr>) idle_world
              = Returned 0 w'
         \<and> run_calls idle_world w' = check_calls @ [E_sceKernelExitDeleteThread 0]
         \<and> dialog_step w' = dialog_step idle_world
         \<and> fs w' DUALSHELLCOMMANDER_VERSION_FILE = None"
    using unread_descriptor_means_no_update [OF h r, of idle_world fake_config] by blast
  then show ?thesis
    using h by (simp add: idle_world_def)
qed

end
